theory Spec2Isabelle
  imports Complex_Main
begin

section \<open>Types of the library (src/types)\<close>

text \<open>
  The enumerations and the error class of \<^verbatim>\<open>types.ts\<close>. Counters, timestamps
  (milliseconds, as \<^verbatim>\<open>Date.now()\<close> gives them), TTLs and status codes are integers;
  the delays of the retry policy are doubles (see the section on numbers). An optional
  field or parameter is an \<open>option\<close>.
\<close>

datatype HTTPMethod = GET | POST | PUT | DELETE | PATCH | HEAD | OPTIONS

text \<open>The string value of each member of the enum, as a template literal prints it.\<close>

fun HTTPMethod_string :: "HTTPMethod \<Rightarrow> string" where
  "HTTPMethod_string GET = ''GET''"
| "HTTPMethod_string POST = ''POST''"
| "HTTPMethod_string PUT = ''PUT''"
| "HTTPMethod_string DELETE = ''DELETE''"
| "HTTPMethod_string PATCH = ''PATCH''"
| "HTTPMethod_string HEAD = ''HEAD''"
| "HTTPMethod_string OPTIONS = ''OPTIONS''"

datatype NetworkErrorType =
  INVALID_URL | NO_DATA | DECODING_ERROR | HTTP_ERROR | UNAUTHORIZED | CUSTOM | TIMEOUT
  | NETWORK_FAILURE

record NetworkError =
  type :: NetworkErrorType
  message :: string
  statusCode :: "int option"

text \<open>
  Decimal printing of an integer of magnitude below \<open>10 ^ 21\<close>, which the source prints
  in full, as inside an error message. \<open>digit\<close> is only applied to numbers below 10.
\<close>

definition digit :: "nat \<Rightarrow> char" where
  "digit d = ''0123456789'' ! d"

fun decimal :: "nat \<Rightarrow> string" where
  "decimal n = (if n div 10 = 0 then [digit n] else decimal (n div 10) @ [digit (n mod 10)])"

definition string_of_int :: "int \<Rightarrow> string" where
  "string_of_int i = (if i < 0 then CHR ''-'' # decimal (nat (- i)) else decimal (nat i))"

definition httpError :: "int \<Rightarrow> NetworkError" where
  "httpError code =
     \<lparr>type = HTTP_ERROR, message = ''HTTP error: '' @ string_of_int code, statusCode = Some code\<rparr>"

definition unauthorized :: NetworkError where
  "unauthorized = \<lparr>type = UNAUTHORIZED, message = ''Unauthorized'', statusCode = Some 401\<rparr>"

definition custom :: "string \<Rightarrow> NetworkError" where
  "custom msg = \<lparr>type = CUSTOM, message = msg, statusCode = None\<rparr>"

definition timeout :: NetworkError where
  "timeout = \<lparr>type = TIMEOUT, message = ''Request timed out'', statusCode = None\<rparr>"

definition networkFailure :: "string \<Rightarrow> NetworkError" where
  "networkFailure msg =
     \<lparr>type = NETWORK_FAILURE, message = ''Network failure: '' @ msg, statusCode = None\<rparr>"

text \<open>
  What a rejected promise carries: an instance of \<^verbatim>\<open>NetworkError\<close>, or anything else
  (\<^verbatim>\<open>error instanceof NetworkError\<close> is false), kept as an opaque description.
\<close>

datatype thrown = Typed NetworkError | Foreign string

text \<open>
  A value of the response type \<^verbatim>\<open>T\<close>: the cache decorator compares it with
  \<^verbatim>\<open>null\<close>, so \<^verbatim>\<open>null\<close> and \<^verbatim>\<open>undefined\<close> are values of their own.
\<close>

datatype 'a jsvalue = Null | Undefined | Data 'a

section \<open>The request contract (core/NetworkRequestable.ts)\<close>

text \<open>
  The five parameters of \<^verbatim>\<open>request\<close>; \<^verbatim>\<open>headers\<close> defaults to the empty object. The
  body and the response type are opaque to every decorator. The parameter \<^verbatim>\<open>method\<close>
  is the field \<open>httpMethod\<close>.
\<close>

record ('b, 'r) request =
  endpoint :: string
  httpMethod :: HTTPMethod
  body :: "'b option"
  responseType :: "'r option"
  headers :: "string \<rightharpoonup> string"

text \<open>
  An implementation of \<^verbatim>\<open>NetworkRequestable\<close> is a function of the request and of the
  state of the world it lives in: the promise settles with a value (\<open>Inr\<close>) or rejects
  (\<open>Inl\<close>), and the world is left in a new state.
\<close>

type_synonym ('b, 'r, 'v, 's) NetworkRequestable =
  "('b, 'r) request \<Rightarrow> 's \<Rightarrow> (thrown + 'v) \<times> 's"

text \<open>
  What a decorator did during one call, in order: the calls it made to the contracts it
  holds (named after the field that holds them), to the token provider and to the cache,
  and the waits it performed.
\<close>

datatype ('b, 'r, 'v) event =
    Wrapped "('b, 'r) request"
  | Primary "('b, 'r) request"
  | Fallback "('b, 'r) request"
  | Delay real
  | TokenProvider
  | CacheGet string
  | CacheSet string 'v "int option"

text \<open>
  \<^verbatim>\<open>generateCacheKey\<close>. \<^verbatim>\<open>JSON.stringify\<close> is the platform's; it is the parameter
  \<open>stringify\<close>. A body that is present is an object, which is truthy.
\<close>

definition generateCacheKey ::
  "('b \<Rightarrow> string) \<Rightarrow> string \<Rightarrow> HTTPMethod \<Rightarrow> 'b option \<Rightarrow> string" where
  "generateCacheKey stringify ep m b =
     HTTPMethod_string m @ '':'' @ ep @ '':'' @ (case b of Some x \<Rightarrow> stringify x | None \<Rightarrow> '''')"

section \<open>The cache (decorators/CacheDecorator.ts)\<close>

text \<open>
  The interface \<^verbatim>\<open>Cache\<close>, over cache objects of state \<open>'c\<close>. The clock is ambient
  in the source (\<^verbatim>\<open>Date.now()\<close>); here every operation receives its reading as first
  argument. A \<^verbatim>\<open>ttl\<close> that is not passed (\<^verbatim>\<open>undefined\<close>) is \<open>None\<close>.
\<close>

record ('c, 'v) Cache =
  cache_get :: "int \<Rightarrow> string \<Rightarrow> 'c \<Rightarrow> 'v jsvalue \<times> 'c"
  cache_set :: "int \<Rightarrow> string \<Rightarrow> 'v jsvalue \<Rightarrow> int option \<Rightarrow> 'c \<Rightarrow> 'c"
  cache_remove :: "string \<Rightarrow> 'c \<Rightarrow> 'c"
  cache_clear :: "'c \<Rightarrow> 'c"

text \<open>An item of the backing map of \<^verbatim>\<open>MemoryCache\<close>: \<^verbatim>\<open>{ value, expiry }\<close>.\<close>

record 'v item =
  val :: "'v jsvalue"
  expiry :: "int option"

type_synonym 'v MemoryCache = "string \<rightharpoonup> 'v item"

definition MemoryCache_get ::
  "int \<Rightarrow> string \<Rightarrow> 'v MemoryCache \<Rightarrow> 'v jsvalue \<times> 'v MemoryCache" where
  "MemoryCache_get now key cache =
     (case cache key of
        None \<Rightarrow> (Null, cache)
      | Some item \<Rightarrow>
          (case expiry item of
             Some e \<Rightarrow> if now > e then (Null, cache(key := None)) else (val item, cache)
           | None \<Rightarrow> (val item, cache)))"

text \<open>\<^verbatim>\<open>ttl ? Date.now() + ttl : null\<close>: a ttl of 0 is falsy, as a missing one is.\<close>

definition MemoryCache_set ::
  "int \<Rightarrow> string \<Rightarrow> 'v jsvalue \<Rightarrow> int option \<Rightarrow> 'v MemoryCache \<Rightarrow> 'v MemoryCache" where
  "MemoryCache_set now key v ttl cache =
     (let e = (case ttl of Some t \<Rightarrow> if t \<noteq> 0 then Some (now + t) else None | None \<Rightarrow> None)
      in cache(key \<mapsto> \<lparr>val = v, expiry = e\<rparr>))"

definition MemoryCache_remove :: "string \<Rightarrow> 'v MemoryCache \<Rightarrow> 'v MemoryCache" where
  "MemoryCache_remove key cache = cache(key := None)"

definition MemoryCache_clear :: "'v MemoryCache \<Rightarrow> 'v MemoryCache" where
  "MemoryCache_clear cache = Map.empty"

definition MemoryCache :: "('v MemoryCache, 'v) Cache" where
  "MemoryCache =
     \<lparr>cache_get = MemoryCache_get, cache_set = MemoryCache_set,
      cache_remove = MemoryCache_remove, cache_clear = MemoryCache_clear\<rparr>"

text \<open>
  \<^verbatim>\<open>CacheDecorator.request\<close>. The state is the pair of the world of the wrapped
  contract and of the cache object; \<open>clock\<close> reads \<^verbatim>\<open>Date.now()\<close> off the world, so
  the lookup sees the time before the wrapped call and the store the time after it.
  \<^verbatim>\<open>this.ttl ?? undefined\<close> passes a \<^verbatim>\<open>null\<close> ttl as a missing one.
\<close>

definition CacheDecorator_request ::
  "('b \<Rightarrow> string) \<Rightarrow> ('s \<Rightarrow> int) \<Rightarrow> ('c, 'v) Cache \<Rightarrow> int option \<Rightarrow> HTTPMethod list \<Rightarrow>
   ('b, 'r, 'v jsvalue, 's) NetworkRequestable \<Rightarrow> ('b, 'r) request \<Rightarrow> 's \<times> 'c \<Rightarrow>
   (thrown + 'v jsvalue) \<times> ('s \<times> 'c) \<times> ('b, 'r, 'v jsvalue) event list" where
  "CacheDecorator_request stringify clock cache ttl cacheMethods wrapped req sc =
     (case sc of (s, c) \<Rightarrow>
        if httpMethod req \<in> set cacheMethods then
          (let cacheKey = generateCacheKey stringify (endpoint req) (httpMethod req) (body req)
           in case cache_get cache (clock s) cacheKey c of
                (cachedResponse, c1) \<Rightarrow>
                  if cachedResponse \<noteq> Null then (Inr cachedResponse, (s, c1), [CacheGet cacheKey])
                  else
                    (case wrapped req s of
                       (Inl err, s') \<Rightarrow> (Inl err, (s', c1), [CacheGet cacheKey, Wrapped req])
                     | (Inr response, s') \<Rightarrow>
                         (Inr response,
                          (s', cache_set cache (clock s') cacheKey response ttl c1),
                          [CacheGet cacheKey, Wrapped req, CacheSet cacheKey response ttl])))
        else (case wrapped req s of (r, s') \<Rightarrow> (r, (s', c), [Wrapped req])))"

definition CacheDecorator_clearCache :: "('c, 'v) Cache \<Rightarrow> 'c \<Rightarrow> 'c" where
  "CacheDecorator_clearCache cache c = cache_clear cache c"

definition CacheDecorator_invalidateCache ::
  "('b \<Rightarrow> string) \<Rightarrow> ('c, 'v) Cache \<Rightarrow> string \<Rightarrow> HTTPMethod \<Rightarrow> 'b option \<Rightarrow> 'c \<Rightarrow> 'c" where
  "CacheDecorator_invalidateCache stringify cache ep m b c =
     cache_remove cache (generateCacheKey stringify ep m b) c"

section \<open>Numbers\<close>

text \<open>
  The numbers of the source are IEEE 754 doubles. A finite double is the real number it
  denotes; the product of two doubles is their real product rounded to the nearest double,
  ties to the even significand, with 53 bits of significand above \<open>2 ^ - 1022\<close> and
  multiples of \<open>2 ^ - 1074\<close> below. A product beyond the range of doubles is rounded in
  the same way (the source has \<^verbatim>\<open>Infinity\<close> there, and \<^verbatim>\<open>Math.min\<close> with a finite
  bound gives the bound in both); \<^verbatim>\<open>NaN\<close> is not a number of the model.
  \<^verbatim>\<open>Math.min\<close> and the comparisons are exact.
\<close>

definition roundHalfEven :: "real \<Rightarrow> int" where
  "roundHalfEven x =
     (let f = \<lfloor>x\<rfloor>
      in if x - of_int f < 1 / 2 then f
         else if x - of_int f > 1 / 2 then f + 1
         else if even f then f else f + 1)"

fun bitLength :: "nat \<Rightarrow> nat" where
  "bitLength n = (if n = 0 then 0 else Suc (bitLength (n div 2)))"

text \<open>The \<open>e\<close> with \<open>2 ^ e \<le> a < 2 ^ (e + 1)\<close>, for a positive \<open>a\<close>.\<close>

definition binaryExponent :: "real \<Rightarrow> int" where
  "binaryExponent a =
     (if 1 \<le> a then int (bitLength (nat \<lfloor>a\<rfloor>)) - 1
      else - int (bitLength (nat \<lceil>1 / a\<rceil> - 1)))"

definition power2 :: "int \<Rightarrow> real" where
  "power2 e = (if 0 \<le> e then 2 ^ nat e else 1 / 2 ^ nat (- e))"

text \<open>The distance between neighbouring doubles at a positive \<open>a\<close>.\<close>

definition ulp :: "real \<Rightarrow> real" where
  "ulp a = power2 (max (binaryExponent a - 52) (- 1074))"

definition roundDouble :: "real \<Rightarrow> real" where
  "roundDouble x =
     (if x = 0 then 0
      else sgn x * of_int (roundHalfEven (\<bar>x\<bar> / ulp \<bar>x\<bar>)) * ulp \<bar>x\<bar>)"

text \<open>The operator \<^verbatim>\<open>*\<close> of the source.\<close>

definition doubleTimes :: "real \<Rightarrow> real \<Rightarrow> real" where
  "doubleTimes x y = roundDouble (x * y)"

section \<open>Retry (decorators/RetryDecorator.ts)\<close>

record RetryOptions =
  maxAttempts :: int
  initialDelay :: real
  maxDelay :: real
  backoffFactor :: real
  retryableErrors :: "NetworkErrorType list"

definition DEFAULT_RETRY_OPTIONS :: RetryOptions where
  "DEFAULT_RETRY_OPTIONS =
     \<lparr>maxAttempts = 3, initialDelay = 300, maxDelay = 3000, backoffFactor = 2,
      retryableErrors = [NETWORK_FAILURE, TIMEOUT, HTTP_ERROR]\<rparr>"

text \<open>
  \<^verbatim>\<open>error.type === HTTP_ERROR && error.statusCode && error.statusCode < 500\<close>:
  a status code that is missing or 0 is falsy, and the test is then false.
\<close>

definition clientHttpError :: "NetworkError \<Rightarrow> bool" where
  "clientHttpError error =
     (type error = HTTP_ERROR \<and>
      (case statusCode error of Some c \<Rightarrow> c \<noteq> 0 \<and> c < 500 | None \<Rightarrow> False))"

text \<open>
  The loop of \<^verbatim>\<open>RetryDecorator.request\<close>, with its three variables. \<^verbatim>\<open>delay\<close> only
  suspends the call: it is recorded in the trace and leaves the world as it is.
\<close>

function retry_loop ::
  "RetryOptions \<Rightarrow> ('b, 'r, 'v, 's) NetworkRequestable \<Rightarrow> ('b, 'r) request \<Rightarrow>
   NetworkError option \<Rightarrow> int \<Rightarrow> real \<Rightarrow> 's \<Rightarrow> (thrown + 'v) \<times> 's \<times> ('b, 'r, 'v) event list" where
  "retry_loop options wrapped req lastError attempt waitTime s =
     (if attempt < maxAttempts options then
        (case wrapped req s of
           (Inr v, s') \<Rightarrow> (Inr v, s', [Wrapped req])
         | (Inl (Foreign x), s') \<Rightarrow> (Inl (Foreign x), s', [Wrapped req])
         | (Inl (Typed error), s') \<Rightarrow>
             if type error \<notin> set (retryableErrors options) then
               (Inl (Typed error), s', [Wrapped req])
             else if clientHttpError error then (Inl (Typed error), s', [Wrapped req])
             else if attempt + 1 \<ge> maxAttempts options then
               (Inl (Typed error), s', [Wrapped req])
             else
               (case retry_loop options wrapped req (Some error) (attempt + 1)
                       (min (doubleTimes waitTime (backoffFactor options)) (maxDelay options))
                       s' of
                  (r, s'', evs) \<Rightarrow> (r, s'', Wrapped req # Delay waitTime # evs)))
      else
        (Inl (Typed (case lastError of Some e \<Rightarrow> e
                     | None \<Rightarrow> custom ''Unknown error during retry'')), s, []))"
  by pat_completeness auto
termination
  by (relation "measure (\<lambda>(options, wrapped, req, lastError, attempt, waitTime, s).
        nat (maxAttempts options - attempt))") auto

definition RetryDecorator_request ::
  "RetryOptions \<Rightarrow> ('b, 'r, 'v, 's) NetworkRequestable \<Rightarrow> ('b, 'r) request \<Rightarrow> 's \<Rightarrow>
   (thrown + 'v) \<times> 's \<times> ('b, 'r, 'v) event list" where
  "RetryDecorator_request options wrapped req s =
     retry_loop options wrapped req None 0 (initialDelay options) s"

section \<open>Fallback (decorators/FallbackDecorator.ts)\<close>

record FallbackOptions =
  fallbackErrors :: "NetworkErrorType list"

definition DEFAULT_FALLBACK_OPTIONS :: FallbackOptions where
  "DEFAULT_FALLBACK_OPTIONS = \<lparr>fallbackErrors = [NETWORK_FAILURE, TIMEOUT, HTTP_ERROR]\<rparr>"

text \<open>\<^verbatim>\<open>FallbackDecorator.request\<close>; both contracts live in the same world.\<close>

definition FallbackDecorator_request ::
  "FallbackOptions \<Rightarrow> ('b, 'r, 'v, 's) NetworkRequestable \<Rightarrow> ('b, 'r, 'v, 's) NetworkRequestable \<Rightarrow>
   ('b, 'r) request \<Rightarrow> 's \<Rightarrow> (thrown + 'v) \<times> 's \<times> ('b, 'r, 'v) event list" where
  "FallbackDecorator_request options primary fallback req s =
     (case primary req s of
        (Inr v, s') \<Rightarrow> (Inr v, s', [Primary req])
      | (Inl (Foreign x), s') \<Rightarrow> (Inl (Foreign x), s', [Primary req])
      | (Inl (Typed error), s') \<Rightarrow>
          if type error \<notin> set (fallbackErrors options) then (Inl (Typed error), s', [Primary req])
          else if clientHttpError error then (Inl (Typed error), s', [Primary req])
          else (case fallback req s' of (r, s'') \<Rightarrow> (r, s'', [Primary req, Fallback req])))"

section \<open>Authentication (decorators/AuthenticatedDecorator.ts)\<close>

text \<open>The default of the constructor's fourth parameter.\<close>

definition AuthenticatedDecorator_headerName :: "string option \<Rightarrow> string" where
  "AuthenticatedDecorator_headerName h = (case h of Some n \<Rightarrow> n | None \<Rightarrow> ''Authorization'')"

definition startsWith :: "string \<Rightarrow> string \<Rightarrow> bool" where
  "startsWith t p = (take (length p) t = p)"

text \<open>
  \<^verbatim>\<open>AuthenticatedDecorator.request\<close>. The token provider is a function of the world
  that returns a string, \<^verbatim>\<open>null\<close> or \<^verbatim>\<open>undefined\<close>; \<^verbatim>\<open>!token\<close> holds of the last two
  and of the empty string. The spread \<^verbatim>\<open>{...headers, [name]: v}\<close> is a map update.
\<close>

definition AuthenticatedDecorator_request ::
  "('s \<Rightarrow> string jsvalue \<times> 's) \<Rightarrow> (string \<Rightarrow> bool) \<Rightarrow> string \<Rightarrow>
   ('b, 'r, 'v, 's) NetworkRequestable \<Rightarrow> ('b, 'r) request \<Rightarrow> 's \<Rightarrow>
   (thrown + 'v) \<times> 's \<times> ('b, 'r, 'v) event list" where
  "AuthenticatedDecorator_request tokenProvider needsAuth headerName wrapped req s =
     (if needsAuth (endpoint req) then
        (case tokenProvider s of
           (Data token, s1) \<Rightarrow>
             if token = [] then (Inl (Typed unauthorized), s1, [TokenProvider])
             else
               (let authHeaders =
                      (headers req)(headerName \<mapsto>
                         (if startsWith token ''Bearer '' then token else ''Bearer '' @ token));
                    authReq = req\<lparr>headers := authHeaders\<rparr>
                in case wrapped authReq s1 of (r, s2) \<Rightarrow> (r, s2, [TokenProvider, Wrapped authReq]))
         | (_, s1) \<Rightarrow> (Inl (Typed unauthorized), s1, [TokenProvider]))
      else (case wrapped req s of (r, s') \<Rightarrow> (r, s', [Wrapped req])))"

section \<open>Reading a run\<close>

text \<open>The requests a run sent to each contract, and the waits it performed, in order.\<close>

fun wrappedCalls :: "('b, 'r, 'v) event list \<Rightarrow> ('b, 'r) request list" where
  "wrappedCalls [] = []"
| "wrappedCalls (Wrapped r # es) = r # wrappedCalls es"
| "wrappedCalls (e # es) = wrappedCalls es"

fun primaryCalls :: "('b, 'r, 'v) event list \<Rightarrow> ('b, 'r) request list" where
  "primaryCalls [] = []"
| "primaryCalls (Primary r # es) = r # primaryCalls es"
| "primaryCalls (e # es) = primaryCalls es"

fun fallbackCalls :: "('b, 'r, 'v) event list \<Rightarrow> ('b, 'r) request list" where
  "fallbackCalls [] = []"
| "fallbackCalls (Fallback r # es) = r # fallbackCalls es"
| "fallbackCalls (e # es) = fallbackCalls es"

fun waits :: "('b, 'r, 'v) event list \<Rightarrow> real list" where
  "waits [] = []"
| "waits (Delay d # es) = d # waits es"
| "waits (e # es) = waits es"

definition trace :: "'a \<times> 's \<times> 'e list \<Rightarrow> 'e list" where
  "trace run = snd (snd run)"

text \<open>The world after \<open>n\<close> successive calls of a contract with the same request.\<close>

definition worldAfter ::
  "('b, 'r, 'v, 's) NetworkRequestable \<Rightarrow> ('b, 'r) request \<Rightarrow> nat \<Rightarrow> 's \<Rightarrow> 's" where
  "worldAfter wrapped req n s = ((\<lambda>w. snd (wrapped req w)) ^^ n) s"

text \<open>
  The trace of a run of the retry decorator that waited \<open>ws\<close>: a call, then each wait
  followed by a call.
\<close>

fun retryTrace :: "('b, 'r) request \<Rightarrow> real list \<Rightarrow> ('b, 'r, 'v) event list" where
  "retryTrace req [] = [Wrapped req]"
| "retryTrace req (w # ws) = Wrapped req # Delay w # retryTrace req ws"

section \<open>Contracts and requests used as examples\<close>

text \<open>
  Contracts in the manner of \<^verbatim>\<open>MockNetworkRequestable\<close>: the world is the number of
  requests received so far (the length of its request history).
\<close>

definition mockError :: "thrown \<Rightarrow> ('b, 'r, 'v, nat) NetworkRequestable" where
  "mockError e req n = (Inl e, Suc n)"

definition mockResponse :: "'v \<Rightarrow> ('b, 'r, 'v, nat) NetworkRequestable" where
  "mockResponse v req n = (Inr v, Suc n)"

text \<open>A contract whose third call times out and whose other calls find the network down.\<close>

definition mockOffline :: "('b, 'r, 'v, nat) NetworkRequestable" where
  "mockOffline req n = (Inl (Typed (if n = 2 then timeout else networkFailure ''offline'')), Suc n)"

definition clockAt :: "int \<Rightarrow> nat \<Rightarrow> int" where
  "clockAt t n = t"

definition usersRequest :: "(string, string) request" where
  "usersRequest =
     \<lparr>endpoint = ''/users/1'', httpMethod = GET, body = None, responseType = None,
      headers = Map.empty\<rparr>"

definition postRequest :: "(string, string) request" where
  "postRequest =
     \<lparr>endpoint = ''/users'', httpMethod = POST, body = Some ''{}'', responseType = None,
      headers = [''Accept'' \<mapsto> ''application/json'', ''Authorization'' \<mapsto> ''Basic xyz'']\<rparr>"

definition loginRequest :: "(string, string) request" where
  "loginRequest =
     \<lparr>endpoint = ''/login'', httpMethod = POST, body = Some ''{}'', responseType = None,
      headers = [''Accept'' \<mapsto> ''application/json'']\<rparr>"

definition isPrivate :: "string \<Rightarrow> bool" where
  "isPrivate ep = (ep \<noteq> ''/login'')"

definition tokenOf :: "string jsvalue \<Rightarrow> nat \<Rightarrow> string jsvalue \<times> nat" where
  "tokenOf t n = (t, n)"

text \<open>
  Bodies used as examples: objects whose fields, kept in the order of their insertion,
  hold integers. \<open>JSON_stringify\<close> is the platform's \<^verbatim>\<open>JSON.stringify\<close> on such an
  object, for keys that need no escaping and integers of magnitude below \<open>10 ^ 21\<close>: the
  fields in their order, separated by commas, between braces. Two such objects are
  structurally equal when they have the same fields with the same values, in whatever
  order.
\<close>

definition JSON_field :: "string \<times> int \<Rightarrow> string" where
  "JSON_field f = CHR 0x22 # fst f @ CHR 0x22 # CHR '':'' # string_of_int (snd f)"

fun JSON_fields :: "(string \<times> int) list \<Rightarrow> string" where
  "JSON_fields [] = []"
| "JSON_fields [f] = JSON_field f"
| "JSON_fields (f # fs) = JSON_field f @ '','' @ JSON_fields fs"

definition JSON_stringify :: "(string \<times> int) list \<Rightarrow> string" where
  "JSON_stringify fs = ''{'' @ JSON_fields fs @ ''}''"

definition structurallyEqual :: "(string \<times> int) list \<Rightarrow> (string \<times> int) list \<Rightarrow> bool" where
  "structurallyEqual b1 b2 = (distinct (map fst b1) \<and> distinct (map fst b2) \<and> set b1 = set b2)"

text \<open>
  A policy of four attempts that starts at 100 ms and grows by the double nearest to 1.1.
\<close>

definition tenPercentOptions :: RetryOptions where
  "tenPercentOptions =
     \<lparr>maxAttempts = 4, initialDelay = 100, maxDelay = 3000,
      backoffFactor = 2476979795053773 / 2251799813685248,
      retryableErrors = [NETWORK_FAILURE, TIMEOUT, HTTP_ERROR]\<rparr>"

section \<open>The specification's wording, for comparison\<close>

text \<open>
  The cache key as the specification words it: the method, the endpoint and the
  serialization of the body, concatenated.
\<close>

definition concatenationKey ::
  "('b \<Rightarrow> string) \<Rightarrow> string \<Rightarrow> HTTPMethod \<Rightarrow> 'b option \<Rightarrow> string" where
  "concatenationKey stringify ep m b =
     HTTPMethod_string m @ ep @ (case b of Some x \<Rightarrow> stringify x | None \<Rightarrow> '''')"

text \<open>
  The errors that the specification says are propagated at once: not a typed error, or of
  a kind outside the configured set, or an HTTP error whose status code is below 500.
\<close>

definition propagatesAtOnce :: "NetworkErrorType list \<Rightarrow> thrown \<Rightarrow> bool" where
  "propagatesAtOnce kinds err =
     (case err of
        Foreign x \<Rightarrow> True
      | Typed e \<Rightarrow>
          (if type e \<in> set kinds
           then type e = HTTP_ERROR \<and> (case statusCode e of Some c \<Rightarrow> c < 500 | None \<Rightarrow> False)
           else True))"

section \<open>Properties\<close>

subsection \<open>The cache key\<close>

text \<open>
  C6, as amended. \<^verbatim>\<open>generateCacheKey\<close> is deterministic: two calls with equal endpoint
  and method, and with bodies whose serializations are identical, yield the identical
  string. The key is the method, a colon, the endpoint, a colon and the serialization of
  the body (the empty string when the body is absent), in this order. For a fixed
  endpoint and method, two keys are equal exactly when the serializations of the two
  bodies are equal; so two bodies whose serializations differ have different keys. The
  serialization, which the specification calls canonical, is \<^verbatim>\<open>JSON.stringify\<close> in the
  source and any function \<open>stringify\<close> here.
\<close>

theorem generateCacheKey_separated:
  "generateCacheKey stringify ep m b
     = HTTPMethod_string m @ '':'' @ ep @ '':'' @ (case b of Some x \<Rightarrow> stringify x | None \<Rightarrow> [])
   \<and> ((case b1 of Some x \<Rightarrow> stringify x | None \<Rightarrow> [])
          = (case b2 of Some x \<Rightarrow> stringify x | None \<Rightarrow> []) \<longrightarrow>
        generateCacheKey stringify ep m b1 = generateCacheKey stringify ep m b2)
   \<and> ((case b1 of Some x \<Rightarrow> stringify x | None \<Rightarrow> [])
          \<noteq> (case b2 of Some x \<Rightarrow> stringify x | None \<Rightarrow> []) \<longrightarrow>
        generateCacheKey stringify ep m b1 \<noteq> generateCacheKey stringify ep m b2)"
  by (simp add: generateCacheKey_def)

theorem generateCacheKey_separated_witness:
  "JSON_stringify [(''a'', 1), (''b'', 2)] = ''{\"a\":1,\"b\":2}''
   \<and> generateCacheKey JSON_stringify ''/users'' POST (Some [(''a'', 1), (''b'', 2)])
       = ''POST:/users:{\"a\":1,\"b\":2}''
   \<and> generateCacheKey JSON_stringify ''/users'' POST (Some [(''a'', 1), (''b'', 2)])
       = generateCacheKey JSON_stringify ''/users'' POST (Some [(''a'', 1), (''b'', 2)])
   \<and> JSON_stringify [(''a'', 1), (''b'', 2)] \<noteq> JSON_stringify [(''a'', 1), (''b'', 3)]
   \<and> generateCacheKey JSON_stringify ''/users'' POST (Some [(''a'', 1), (''b'', 2)])
       \<noteq> generateCacheKey JSON_stringify ''/users'' POST (Some [(''a'', 1), (''b'', 3)])
   \<and> generateCacheKey JSON_stringify ''/users'' POST (Some [(''a'', 1), (''b'', 2)])
       \<noteq> generateCacheKey JSON_stringify ''/users'' POST None"
proof -
  let ?b = "[(''a'', 1), (''b'', 2)] :: (string \<times> int) list"
  let ?c = "[(''a'', 1), (''b'', 3)] :: (string \<times> int) list"
  have s: "JSON_stringify ?b = ''{\"a\":1,\"b\":2}''"
    and t: "JSON_stringify ?c = ''{\"a\":1,\"b\":3}''"
    by (simp_all add: JSON_stringify_def JSON_field_def string_of_int_def digit_def)
  have same: "(case Some ?b of Some x \<Rightarrow> JSON_stringify x | None \<Rightarrow> [])
                = (case Some ?b of Some x \<Rightarrow> JSON_stringify x | None \<Rightarrow> [])"
    by simp
  have other: "(case Some ?b of Some x \<Rightarrow> JSON_stringify x | None \<Rightarrow> [])
                 \<noteq> (case Some ?c of Some x \<Rightarrow> JSON_stringify x | None \<Rightarrow> [])"
    and absent: "(case Some ?b of Some x \<Rightarrow> JSON_stringify x | None \<Rightarrow> [])
                 \<noteq> (case None of Some x \<Rightarrow> JSON_stringify x | None \<Rightarrow> [])"
    by (simp_all add: s t)
  note k = generateCacheKey_separated [of JSON_stringify "''/users''" POST "Some ?b", THEN conjunct1]
  note d = generateCacheKey_separated [of JSON_stringify "''/users''" POST "Some ?b" "Some ?b"
      "Some ?b", THEN conjunct2, THEN conjunct1, THEN mp, OF same]
  note i = generateCacheKey_separated [of JSON_stringify "''/users''" POST "Some ?b" "Some ?b"
      "Some ?c", THEN conjunct2, THEN conjunct2, THEN mp, OF other]
  note j = generateCacheKey_separated [of JSON_stringify "''/users''" POST "Some ?b" "Some ?b"
      None, THEN conjunct2, THEN conjunct2, THEN mp, OF absent]
  from k s have v: "generateCacheKey JSON_stringify ''/users'' POST (Some ?b)
                     = ''POST:/users:{\"a\":1,\"b\":2}''"
    by simp
  from s t have n: "JSON_stringify ?b \<noteq> JSON_stringify ?c"
    by simp
  from s v d n i j show ?thesis by blast
qed

text \<open>
  The key of a GET of \<^verbatim>\<open>/users/1\<close> without body is \<^verbatim>\<open>GET:/users/1:\<close>, which is not
  the concatenation \<^verbatim>\<open>GET/users/1\<close> of the method, the endpoint and the empty string.
  And the bodies \<^verbatim>\<open>{a: 1, b: 2}\<close> and \<^verbatim>\<open>{b: 2, a: 1}\<close>, which are structurally equal,
  are serialized in the order of their fields and get different keys.
\<close>

theorem generateCacheKey_counterexample:
  "generateCacheKey JSON_stringify ''/users/1'' GET None = ''GET:/users/1:''
   \<and> concatenationKey JSON_stringify ''/users/1'' GET None = ''GET/users/1''
   \<and> generateCacheKey JSON_stringify ''/users/1'' GET None
       \<noteq> concatenationKey JSON_stringify ''/users/1'' GET None
   \<and> structurallyEqual [(''a'', 1), (''b'', 2)] [(''b'', 2), (''a'', 1)]
   \<and> generateCacheKey JSON_stringify ''/users'' POST (Some [(''a'', 1), (''b'', 2)])
       = ''POST:/users:{\"a\":1,\"b\":2}''
   \<and> generateCacheKey JSON_stringify ''/users'' POST (Some [(''b'', 2), (''a'', 1)])
       = ''POST:/users:{\"b\":2,\"a\":1}''
   \<and> generateCacheKey JSON_stringify ''/users'' POST (Some [(''a'', 1), (''b'', 2)])
       \<noteq> generateCacheKey JSON_stringify ''/users'' POST (Some [(''b'', 2), (''a'', 1)])"
  by (auto simp: generateCacheKey_def concatenationKey_def structurallyEqual_def
      JSON_stringify_def JSON_field_def string_of_int_def digit_def)

subsection \<open>The in-memory cache\<close>

lemma MemoryCache_get_cases:
  "MemoryCache_get now key cache = (v, c1) \<Longrightarrow>
     (c1 = cache \<or> (c1 = cache(key := None) \<and> v = Null
        \<and> (\<exists>item e. cache key = Some item \<and> expiry item = Some e \<and> e < now)))"
  by (auto simp: MemoryCache_get_def split: option.splits if_splits)

lemma MemoryCache_get_other:
  "MemoryCache_get now key m = (v, m1) \<Longrightarrow> k \<noteq> key \<Longrightarrow> m1 k = m k"
  by (auto simp: MemoryCache_get_def split: option.splits if_splits)

lemma MemoryCache_get_null:
  "cache key = Some \<lparr>val = Null, expiry = e\<rparr> \<Longrightarrow> fst (MemoryCache_get now key cache) = Null"
  by (simp add: MemoryCache_get_def split: option.splits)

text \<open>
  C7. An entry stored at time \<open>T\<close> with a positive ttl \<open>t\<close> is returned by a \<^verbatim>\<open>get\<close>
  at any time up to and including \<open>T + t\<close>, and the cache is left as it was; a \<^verbatim>\<open>get\<close>
  after \<open>T + t\<close> returns \<^verbatim>\<open>null\<close> and removes the entry from the map. An entry stored
  without ttl is returned at any time. With a ttl of 5000 stored at time 0, the entry is
  found at time 4000 and not at time 6001.
\<close>

theorem MemoryCache_expiry:
  "(0 < t \<and> now \<le> T + t \<longrightarrow>
      MemoryCache_get now key (MemoryCache_set T key v (Some t) cache)
        = (v, MemoryCache_set T key v (Some t) cache))
   \<and> (0 < t \<and> T + t < now \<longrightarrow>
      MemoryCache_get now key (MemoryCache_set T key v (Some t) cache)
        = (Null, (MemoryCache_set T key v (Some t) cache)(key := None))
      \<and> snd (MemoryCache_get now key (MemoryCache_set T key v (Some t) cache)) key = None)
   \<and> MemoryCache_get now key (MemoryCache_set T key v None cache)
        = (v, MemoryCache_set T key v None cache)
   \<and> fst (MemoryCache_get 4000 key (MemoryCache_set 0 key v (Some 5000) cache)) = v
   \<and> fst (MemoryCache_get 6001 key (MemoryCache_set 0 key v (Some 5000) cache)) = Null"
  by (simp add: MemoryCache_get_def MemoryCache_set_def)

theorem MemoryCache_expiry_witness:
  "(0::int) < 5000 \<and> (5000::int) \<le> 0 + 5000 \<and> (0::int) + 5000 < 5001
   \<and> MemoryCache_get 5000 ''k'' (MemoryCache_set 0 ''k'' (Data (7::nat)) (Some 5000) Map.empty)
       = (Data 7, [''k'' \<mapsto> \<lparr>val = Data 7, expiry = Some 5000\<rparr>])
   \<and> MemoryCache_get 5001 ''k'' (MemoryCache_set 0 ''k'' (Data (7::nat)) (Some 5000) Map.empty)
       = (Null, Map.empty)"
  using MemoryCache_expiry [of 5000 5000 0 "''k''" "Data (7::nat)" Map.empty]
    MemoryCache_expiry [of 5000 5001 0 "''k''" "Data (7::nat)" Map.empty]
  by (simp add: MemoryCache_set_def)

subsection \<open>The cache decorator\<close>

lemma CacheDecorator_request_passthrough:
  "httpMethod req \<notin> set cacheMethods \<Longrightarrow>
   CacheDecorator_request stringify clock cache ttl cacheMethods wrapped req (s, c)
     = (fst (wrapped req s), (snd (wrapped req s), c), [Wrapped req])"
  by (simp add: CacheDecorator_request_def split: prod.splits)

lemma CacheDecorator_request_hit:
  "httpMethod req \<in> set cacheMethods \<Longrightarrow>
   cache_get cache (clock s)
     (generateCacheKey stringify (endpoint req) (httpMethod req) (body req)) c = (v, c1) \<Longrightarrow>
   v \<noteq> Null \<Longrightarrow>
   CacheDecorator_request stringify clock cache ttl cacheMethods wrapped req (s, c)
     = (Inr v, (s, c1),
        [CacheGet (generateCacheKey stringify (endpoint req) (httpMethod req) (body req))])"
  by (simp add: CacheDecorator_request_def Let_def)

lemma CacheDecorator_request_miss_resolved:
  "httpMethod req \<in> set cacheMethods \<Longrightarrow>
   cache_get cache (clock s)
     (generateCacheKey stringify (endpoint req) (httpMethod req) (body req)) c = (Null, c1) \<Longrightarrow>
   wrapped req s = (Inr response, s') \<Longrightarrow>
   CacheDecorator_request stringify clock cache ttl cacheMethods wrapped req (s, c)
     = (Inr response,
        (s', cache_set cache (clock s')
               (generateCacheKey stringify (endpoint req) (httpMethod req) (body req))
               response ttl c1),
        [CacheGet (generateCacheKey stringify (endpoint req) (httpMethod req) (body req)),
         Wrapped req,
         CacheSet (generateCacheKey stringify (endpoint req) (httpMethod req) (body req))
           response ttl])"
  by (simp add: CacheDecorator_request_def Let_def)

lemma CacheDecorator_request_miss_rejected:
  "httpMethod req \<in> set cacheMethods \<Longrightarrow>
   cache_get cache (clock s)
     (generateCacheKey stringify (endpoint req) (httpMethod req) (body req)) c = (Null, c1) \<Longrightarrow>
   wrapped req s = (Inl err, s') \<Longrightarrow>
   CacheDecorator_request stringify clock cache ttl cacheMethods wrapped req (s, c)
     = (Inl err, (s', c1),
        [CacheGet (generateCacheKey stringify (endpoint req) (httpMethod req) (body req)),
         Wrapped req])"
  by (simp add: CacheDecorator_request_def Let_def)

text \<open>
  C3, as amended. If the method is not cacheable, the request goes to the wrapped
  contract, whose result or error is returned, and the cache is neither read nor written.
  Otherwise the cache is queried under the cache key. On a hit (a value other than
  \<^verbatim>\<open>null\<close>) that value is returned and the wrapped contract is not called. On a miss
  the wrapped contract is called once; if it resolves, the result is stored under the key
  with the configured ttl and returned; if it rejects, the error is returned as it is and
  nothing is stored, so that the cache is as the lookup left it. With the in-memory
  cache, the lookup changes nothing but the entry under the key, which it deletes when
  it has expired; a store without ttl has no expiry, and a store with a ttl other than 0
  expires that long after the time of the store.
\<close>

theorem CacheDecorator_request_algorithm:
  "(httpMethod req \<notin> set cacheMethods \<longrightarrow>
      CacheDecorator_request stringify clock cache ttl cacheMethods wrapped req (s, c)
        = (fst (wrapped req s), (snd (wrapped req s), c), [Wrapped req]))
   \<and> (httpMethod req \<in> set cacheMethods
       \<and> cache_get cache (clock s)
            (generateCacheKey stringify (endpoint req) (httpMethod req) (body req)) c = (v, c1)
       \<and> v \<noteq> Null \<longrightarrow>
      CacheDecorator_request stringify clock cache ttl cacheMethods wrapped req (s, c)
        = (Inr v, (s, c1),
           [CacheGet (generateCacheKey stringify (endpoint req) (httpMethod req) (body req))]))
   \<and> (httpMethod req \<in> set cacheMethods
       \<and> cache_get cache (clock s)
            (generateCacheKey stringify (endpoint req) (httpMethod req) (body req)) c = (Null, c1)
       \<and> wrapped req s = (Inr response, s') \<longrightarrow>
      CacheDecorator_request stringify clock cache ttl cacheMethods wrapped req (s, c)
        = (Inr response,
           (s', cache_set cache (clock s')
                  (generateCacheKey stringify (endpoint req) (httpMethod req) (body req))
                  response ttl c1),
           [CacheGet (generateCacheKey stringify (endpoint req) (httpMethod req) (body req)),
            Wrapped req,
            CacheSet (generateCacheKey stringify (endpoint req) (httpMethod req) (body req))
              response ttl]))
   \<and> (httpMethod req \<in> set cacheMethods
       \<and> cache_get cache (clock s)
            (generateCacheKey stringify (endpoint req) (httpMethod req) (body req)) c = (Null, c1)
       \<and> wrapped req s = (Inl err, s') \<longrightarrow>
      CacheDecorator_request stringify clock cache ttl cacheMethods wrapped req (s, c)
        = (Inl err, (s', c1),
           [CacheGet (generateCacheKey stringify (endpoint req) (httpMethod req) (body req)),
            Wrapped req]))
   \<and> (MemoryCache_get now key m = (v', m1) \<longrightarrow>
        (\<forall>k. k \<noteq> key \<longrightarrow> m1 k = m k)
        \<and> (m1 = m \<or> (m1 = m(key := None)
              \<and> (\<exists>item e. m key = Some item \<and> expiry item = Some e \<and> e < now))))
   \<and> MemoryCache_set now key response None m = m(key \<mapsto> \<lparr>val = response, expiry = None\<rparr>)
   \<and> (t \<noteq> 0 \<longrightarrow> MemoryCache_set now key response (Some t) m
         = m(key \<mapsto> \<lparr>val = response, expiry = Some (now + t)\<rparr>))"
proof (intro conjI impI allI)
  assume "httpMethod req \<notin> set cacheMethods"
  then show "CacheDecorator_request stringify clock cache ttl cacheMethods wrapped req (s, c)
        = (fst (wrapped req s), (snd (wrapped req s), c), [Wrapped req])"
    by (rule CacheDecorator_request_passthrough)
next
  fix k assume "MemoryCache_get now key m = (v', m1)" "k \<noteq> key"
  then show "m1 k = m k" by (rule MemoryCache_get_other)
next
  assume "MemoryCache_get now key m = (v', m1)"
  then show "m1 = m \<or> (m1 = m(key := None)
              \<and> (\<exists>item e. m key = Some item \<and> expiry item = Some e \<and> e < now))"
    using MemoryCache_get_cases by blast
qed (simp_all add: CacheDecorator_request_hit CacheDecorator_request_miss_resolved
      CacheDecorator_request_miss_rejected MemoryCache_set_def)

theorem CacheDecorator_request_algorithm_witness:
  "httpMethod postRequest \<notin> set [GET]
   \<and> CacheDecorator_request id (clockAt 0) MemoryCache (Some 5000) [GET]
        (mockResponse (Data ''made'')) postRequest (0, Map.empty)
      = (Inr (Data ''made''), (1, Map.empty), [Wrapped postRequest])
   \<and> httpMethod usersRequest \<in> set [GET]
   \<and> cache_get MemoryCache (clockAt 0 0) ''GET:/users/1:''
        [''GET:/users/1:'' \<mapsto> \<lparr>val = Data ''kept'', expiry = None\<rparr>]
      = (Data ''kept'', [''GET:/users/1:'' \<mapsto> \<lparr>val = Data ''kept'', expiry = None\<rparr>])
   \<and> CacheDecorator_request id (clockAt 0) MemoryCache (Some 5000) [GET]
        (mockResponse (Data ''fresh'')) usersRequest
        (0, [''GET:/users/1:'' \<mapsto> \<lparr>val = Data ''kept'', expiry = None\<rparr>])
      = (Inr (Data ''kept''),
         (0, [''GET:/users/1:'' \<mapsto> \<lparr>val = Data ''kept'', expiry = None\<rparr>]),
         [CacheGet ''GET:/users/1:''])
   \<and> cache_get MemoryCache (clockAt 0 0) ''GET:/users/1:'' Map.empty
      = (Null :: string jsvalue, Map.empty)
   \<and> CacheDecorator_request id (clockAt 0) MemoryCache (Some 5000) [GET]
        (mockResponse (Data ''fresh'')) usersRequest (0, Map.empty)
      = (Inr (Data ''fresh''),
         (1, [''GET:/users/1:'' \<mapsto> \<lparr>val = Data ''fresh'', expiry = Some 5000\<rparr>]),
         [CacheGet ''GET:/users/1:'', Wrapped usersRequest,
          CacheSet ''GET:/users/1:'' (Data ''fresh'') (Some 5000)])
   \<and> CacheDecorator_request id (clockAt 0) MemoryCache (Some 5000) [GET]
        (mockError (Typed timeout)) usersRequest (0, Map.empty :: string MemoryCache)
      = (Inl (Typed timeout), (1, Map.empty),
         [CacheGet ''GET:/users/1:'', Wrapped usersRequest])"
  using
    CacheDecorator_request_algorithm [where req = postRequest and cacheMethods = "[GET]"
      and stringify = id and clock = "clockAt 0" and cache = MemoryCache and ttl = "Some 5000"
      and wrapped = "mockResponse (Data ''made'')" and s = 0 and c = Map.empty]
    CacheDecorator_request_algorithm [where req = usersRequest and cacheMethods = "[GET]"
      and stringify = id and clock = "clockAt 0" and cache = MemoryCache and ttl = "Some 5000"
      and wrapped = "mockResponse (Data ''fresh'')" and s = 0
      and c = "[''GET:/users/1:'' \<mapsto> \<lparr>val = Data ''kept'', expiry = None\<rparr>]"
      and v = "Data ''kept''"
      and ?c1.0 = "[''GET:/users/1:'' \<mapsto> \<lparr>val = Data ''kept'', expiry = None\<rparr>]"]
    CacheDecorator_request_algorithm [where req = usersRequest and cacheMethods = "[GET]"
      and stringify = id and clock = "clockAt 0" and cache = MemoryCache and ttl = "Some 5000"
      and wrapped = "mockResponse (Data ''fresh'')" and s = 0 and c = Map.empty
      and ?c1.0 = Map.empty and response = "Data ''fresh''" and s' = 1]
    CacheDecorator_request_algorithm [where req = usersRequest and cacheMethods = "[GET]"
      and stringify = id and clock = "clockAt 0" and cache = MemoryCache and ttl = "Some 5000"
      and wrapped = "mockError (Typed timeout)" and s = 0 and c = Map.empty
      and ?c1.0 = Map.empty and err = "Typed timeout" and s' = 1]
  by (simp add: CacheDecorator_request_def MemoryCache_def MemoryCache_get_def
      MemoryCache_set_def generateCacheKey_def usersRequest_def postRequest_def mockError_def
      mockResponse_def clockAt_def)

text \<open>
  A GET whose entry expired at time 10, issued at time 20 to a contract that rejects: the
  error is returned, and the cache, which held the entry before the call, is empty after
  it.
\<close>

theorem CacheDecorator_request_counterexample:
  "CacheDecorator_request id (clockAt 20) MemoryCache (Some 5) [GET]
     (mockError (Foreign ''boom'')) usersRequest
     (0, [''GET:/users/1:'' \<mapsto> \<lparr>val = Data ''old'', expiry = Some 10\<rparr>])
   = (Inl (Foreign ''boom''), (1, Map.empty), [CacheGet ''GET:/users/1:'', Wrapped usersRequest])
   \<and> [''GET:/users/1:'' \<mapsto> \<lparr>val = Data ''old'', expiry = Some (10::int)\<rparr>] \<noteq> Map.empty"
  by (simp add: CacheDecorator_request_def MemoryCache_def MemoryCache_get_def
      generateCacheKey_def usersRequest_def mockError_def clockAt_def)

text \<open>
  C9. A \<^verbatim>\<open>set\<close> with a ttl of 0 stores the entry without expiry, exactly as a \<^verbatim>\<open>set\<close>
  without ttl does, and a \<^verbatim>\<open>get\<close> at any time returns the value and leaves the entry
  in place. The same holds of a store made by the cache decorator configured with a ttl
  of 0: after a miss and a successful call, the entry is in the cache without expiry and
  is returned at every later time.
\<close>

theorem MemoryCache_zero_ttl:
  "MemoryCache_set T key v (Some 0) cache = MemoryCache_set T key v None cache
   \<and> MemoryCache_set T key v (Some 0) cache key = Some \<lparr>val = v, expiry = None\<rparr>
   \<and> MemoryCache_get now key (MemoryCache_set T key v (Some 0) cache)
       = (v, MemoryCache_set T key v (Some 0) cache)
   \<and> (httpMethod req \<in> set cacheMethods
       \<and> fst (MemoryCache_get (clock s)
                (generateCacheKey stringify (endpoint req) (httpMethod req) (body req)) c) = Null
       \<and> wrapped req s = (Inr v, s') \<longrightarrow>
       (\<exists>c'. CacheDecorator_request stringify clock MemoryCache (Some 0) cacheMethods wrapped req (s, c)
               = (Inr v, (s', c'),
                  [CacheGet (generateCacheKey stringify (endpoint req) (httpMethod req) (body req)),
                   Wrapped req,
                   CacheSet (generateCacheKey stringify (endpoint req) (httpMethod req) (body req))
                     v (Some 0)])
          \<and> c' (generateCacheKey stringify (endpoint req) (httpMethod req) (body req))
              = Some \<lparr>val = v, expiry = None\<rparr>
          \<and> (\<forall>later. MemoryCache_get later
                 (generateCacheKey stringify (endpoint req) (httpMethod req) (body req)) c'
                = (v, c'))))"
proof (intro conjI impI)
  let ?key = "generateCacheKey stringify (endpoint req) (httpMethod req) (body req)"
  assume a: "httpMethod req \<in> set cacheMethods
       \<and> fst (MemoryCache_get (clock s) ?key c) = Null \<and> wrapped req s = (Inr v, s')"
  obtain c1 where g: "cache_get MemoryCache (clock s) ?key c = (Null, c1)"
    using a by (cases "MemoryCache_get (clock s) ?key c") (simp add: MemoryCache_def)
  from a have m: "httpMethod req \<in> set cacheMethods" and w: "wrapped req s = (Inr v, s')"
    by simp_all
  let ?c' = "MemoryCache_set (clock s') ?key v (Some 0) c1"
  have "CacheDecorator_request stringify clock MemoryCache (Some 0) cacheMethods wrapped req (s, c)
          = (Inr v, (s', ?c'), [CacheGet ?key, Wrapped req, CacheSet ?key v (Some 0)])"
    using CacheDecorator_request_miss_resolved
            [where clock = clock and stringify = stringify and wrapped = wrapped, OF m g w]
    by (simp add: MemoryCache_def)
  moreover have "?c' ?key = Some \<lparr>val = v, expiry = None\<rparr>"
    by (simp add: MemoryCache_set_def)
  moreover have "\<forall>later. MemoryCache_get later ?key ?c' = (v, ?c')"
    by (simp add: MemoryCache_set_def MemoryCache_get_def)
  ultimately show "\<exists>c'. CacheDecorator_request stringify clock MemoryCache (Some 0) cacheMethods
                          wrapped req (s, c)
               = (Inr v, (s', c'), [CacheGet ?key, Wrapped req, CacheSet ?key v (Some 0)])
          \<and> c' ?key = Some \<lparr>val = v, expiry = None\<rparr>
          \<and> (\<forall>later. MemoryCache_get later ?key c' = (v, c'))"
    by blast
qed (simp_all add: MemoryCache_set_def MemoryCache_get_def)

theorem MemoryCache_zero_ttl_witness:
  "httpMethod usersRequest \<in> set [GET]
   \<and> fst (MemoryCache_get (clockAt 1000 0) ''GET:/users/1:'' (Map.empty :: string MemoryCache)) = Null
   \<and> CacheDecorator_request id (clockAt 1000) MemoryCache (Some 0) [GET]
        (mockResponse (Data ''u1'')) usersRequest (0, Map.empty)
      = (Inr (Data ''u1''), (1, [''GET:/users/1:'' \<mapsto> \<lparr>val = Data ''u1'', expiry = None\<rparr>]),
         [CacheGet ''GET:/users/1:'', Wrapped usersRequest,
          CacheSet ''GET:/users/1:'' (Data ''u1'') (Some 0)])
   \<and> MemoryCache_get 999999999 ''GET:/users/1:''
        [''GET:/users/1:'' \<mapsto> \<lparr>val = Data ''u1'', expiry = None\<rparr>]
      = (Data ''u1'', [''GET:/users/1:'' \<mapsto> \<lparr>val = Data ''u1'', expiry = None\<rparr>])"
  using MemoryCache_zero_ttl [where req = usersRequest and cacheMethods = "[GET]"
      and stringify = id and clock = "clockAt 1000" and wrapped = "mockResponse (Data ''u1'')"
      and s = 0 and c = Map.empty and v = "Data ''u1''" and s' = 1]
  by (simp add: CacheDecorator_request_def MemoryCache_def MemoryCache_get_def Let_def
      MemoryCache_set_def generateCacheKey_def usersRequest_def mockResponse_def clockAt_def)

text \<open>
  C10. A result of \<^verbatim>\<open>null\<close> is stored like any other, but never served: when the
  entry under the key holds \<^verbatim>\<open>null\<close>, whatever its expiry, the lookup counts as a miss,
  the wrapped contract is called once more, and its result, if it resolves, is stored
  again under the key.
\<close>

theorem CacheDecorator_null_is_miss:
  "(httpMethod req \<in> set cacheMethods
    \<and> fst (MemoryCache_get (clock s)
             (generateCacheKey stringify (endpoint req) (httpMethod req) (body req)) c) = Null
    \<and> wrapped req s = (Inr Null, s') \<longrightarrow>
      (\<exists>c'. CacheDecorator_request stringify clock MemoryCache ttl cacheMethods wrapped req (s, c)
              = (Inr Null, (s', c'),
                 [CacheGet (generateCacheKey stringify (endpoint req) (httpMethod req) (body req)),
                  Wrapped req,
                  CacheSet (generateCacheKey stringify (endpoint req) (httpMethod req) (body req))
                    Null ttl])
         \<and> (\<exists>e. c' (generateCacheKey stringify (endpoint req) (httpMethod req) (body req))
                  = Some \<lparr>val = Null, expiry = e\<rparr>)))
   \<and> (httpMethod req \<in> set cacheMethods
    \<and> c (generateCacheKey stringify (endpoint req) (httpMethod req) (body req))
        = Some \<lparr>val = Null, expiry = e0\<rparr>
    \<and> wrapped req s = (Inr v, s') \<longrightarrow>
      (\<exists>c'. CacheDecorator_request stringify clock MemoryCache ttl cacheMethods wrapped req (s, c)
              = (Inr v, (s', c'),
                 [CacheGet (generateCacheKey stringify (endpoint req) (httpMethod req) (body req)),
                  Wrapped req,
                  CacheSet (generateCacheKey stringify (endpoint req) (httpMethod req) (body req))
                    v ttl])
         \<and> (\<exists>e. c' (generateCacheKey stringify (endpoint req) (httpMethod req) (body req))
                  = Some \<lparr>val = v, expiry = e\<rparr>)))
   \<and> (httpMethod req \<in> set cacheMethods
    \<and> c (generateCacheKey stringify (endpoint req) (httpMethod req) (body req))
        = Some \<lparr>val = Null, expiry = e0\<rparr>
    \<and> wrapped req s = (Inl err, s') \<longrightarrow>
      (\<exists>c'. CacheDecorator_request stringify clock MemoryCache ttl cacheMethods wrapped req (s, c)
              = (Inl err, (s', c'),
                 [CacheGet (generateCacheKey stringify (endpoint req) (httpMethod req) (body req)),
                  Wrapped req])))"
proof -
  let ?key = "generateCacheKey stringify (endpoint req) (httpMethod req) (body req)"
  have stored: "\<exists>e. MemoryCache_set now ?key x ttl m ?key = Some \<lparr>val = x, expiry = e\<rparr>"
    for now x and m :: "'c MemoryCache"
    by (simp add: MemoryCache_set_def)
  have resolved: "\<exists>c'. CacheDecorator_request stringify clock MemoryCache ttl cacheMethods wrapped
                         req (s, c)
              = (Inr x, (s', c'), [CacheGet ?key, Wrapped req, CacheSet ?key x ttl])
         \<and> (\<exists>e. c' ?key = Some \<lparr>val = x, expiry = e\<rparr>)"
    if m: "httpMethod req \<in> set cacheMethods"
      and n: "fst (MemoryCache_get (clock s) ?key c) = Null"
      and w: "wrapped req s = (Inr x, s')" for x
  proof -
    obtain c1 where g: "cache_get MemoryCache (clock s) ?key c = (Null, c1)"
      using n by (cases "MemoryCache_get (clock s) ?key c") (simp add: MemoryCache_def)
    have "CacheDecorator_request stringify clock MemoryCache ttl cacheMethods wrapped req (s, c)
            = (Inr x, (s', MemoryCache_set (clock s') ?key x ttl c1),
               [CacheGet ?key, Wrapped req, CacheSet ?key x ttl])"
      using CacheDecorator_request_miss_resolved
              [where clock = clock and stringify = stringify and wrapped = wrapped, OF m g w]
      by (simp add: MemoryCache_def)
    with stored show ?thesis by blast
  qed
  have rejected: "\<exists>c'. CacheDecorator_request stringify clock MemoryCache ttl cacheMethods wrapped
                         req (s, c)
              = (Inl err, (s', c'), [CacheGet ?key, Wrapped req])"
    if m: "httpMethod req \<in> set cacheMethods"
      and n: "fst (MemoryCache_get (clock s) ?key c) = Null"
      and w: "wrapped req s = (Inl err, s')"
  proof -
    obtain c1 where g: "cache_get MemoryCache (clock s) ?key c = (Null, c1)"
      using n by (cases "MemoryCache_get (clock s) ?key c") (simp add: MemoryCache_def)
    show ?thesis
      using CacheDecorator_request_miss_rejected
              [where clock = clock and stringify = stringify and wrapped = wrapped, OF m g w]
      by blast
  qed
  show ?thesis
    using resolved rejected MemoryCache_get_null [of c ?key e0 "clock s"] by blast
qed

theorem CacheDecorator_null_is_miss_witness:
  "httpMethod usersRequest \<in> set [GET]
   \<and> fst (MemoryCache_get (clockAt 0 0) ''GET:/users/1:'' (Map.empty :: string MemoryCache)) = Null
   \<and> mockResponse Null usersRequest 0 = (Inr (Null :: string jsvalue), 1)
   \<and> CacheDecorator_request id (clockAt 0) MemoryCache None [GET]
        (mockResponse Null) usersRequest (0, Map.empty :: string MemoryCache)
      = (Inr Null, (1, [''GET:/users/1:'' \<mapsto> \<lparr>val = Null, expiry = None\<rparr>]),
         [CacheGet ''GET:/users/1:'', Wrapped usersRequest, CacheSet ''GET:/users/1:'' Null None])
   \<and> CacheDecorator_request id (clockAt 0) MemoryCache None [GET]
        (mockResponse (Data ''u1'')) usersRequest
        (1, [''GET:/users/1:'' \<mapsto> \<lparr>val = Null, expiry = None\<rparr>])
      = (Inr (Data ''u1''), (2, [''GET:/users/1:'' \<mapsto> \<lparr>val = Data ''u1'', expiry = None\<rparr>]),
         [CacheGet ''GET:/users/1:'', Wrapped usersRequest,
          CacheSet ''GET:/users/1:'' (Data ''u1'') None])
   \<and> CacheDecorator_request id (clockAt 0) MemoryCache None [GET]
        (mockError (Typed timeout)) usersRequest
        (1, [''GET:/users/1:'' \<mapsto> \<lparr>val = Null :: string jsvalue, expiry = None\<rparr>])
      = (Inl (Typed timeout), (2, [''GET:/users/1:'' \<mapsto> \<lparr>val = Null, expiry = None\<rparr>]),
         [CacheGet ''GET:/users/1:'', Wrapped usersRequest])"
  using
    CacheDecorator_null_is_miss [where req = usersRequest and cacheMethods = "[GET]"
      and stringify = id and clock = "clockAt 0" and ttl = None
      and wrapped = "mockResponse (Null :: string jsvalue)" and s = 0 and s' = 1
      and c = "Map.empty :: string MemoryCache"]
    CacheDecorator_null_is_miss [where req = usersRequest and cacheMethods = "[GET]"
      and stringify = id and clock = "clockAt 0" and ttl = None
      and wrapped = "mockResponse (Data ''u1'')" and s = 1 and s' = 2 and v = "Data ''u1''"
      and c = "[''GET:/users/1:'' \<mapsto> \<lparr>val = Null, expiry = None\<rparr>]" and ?e0.0 = None]
    CacheDecorator_null_is_miss [where req = usersRequest and cacheMethods = "[GET]"
      and stringify = id and clock = "clockAt 0" and ttl = None
      and wrapped = "mockError (Typed timeout)" and s = 1 and s' = 2 and err = "Typed timeout"
      and c = "[''GET:/users/1:'' \<mapsto> \<lparr>val = Null :: string jsvalue, expiry = None\<rparr>]"
      and ?e0.0 = None]
  by (simp add: CacheDecorator_request_def MemoryCache_def MemoryCache_get_def Let_def
      MemoryCache_set_def generateCacheKey_def usersRequest_def mockResponse_def mockError_def
      clockAt_def)

subsection \<open>Products of doubles that the examples take\<close>

lemma doubleTimes_300_2: "doubleTimes 300 2 = 600"
proof -
  have u: "ulp 600 = 1 / 2 ^ 43"
    by (simp add: ulp_def binaryExponent_def power2_def)
  show ?thesis
    by (simp add: doubleTimes_def roundDouble_def roundHalfEven_def Let_def u)
qed

lemma doubleTimes_600_2: "doubleTimes 600 2 = 1200"
proof -
  have u: "ulp 1200 = 1 / 2 ^ 42"
    by (simp add: ulp_def binaryExponent_def power2_def)
  show ?thesis
    by (simp add: doubleTimes_def roundDouble_def roundHalfEven_def Let_def u)
qed

lemma doubleTimes_1200_2: "doubleTimes 1200 2 = 2400"
proof -
  have u: "ulp 2400 = 1 / 2 ^ 41"
    by (simp add: ulp_def binaryExponent_def power2_def)
  show ?thesis
    by (simp add: doubleTimes_def roundDouble_def roundHalfEven_def Let_def u)
qed

lemma doubleTimes_2400_2: "doubleTimes 2400 2 = 4800"
proof -
  have u: "ulp 4800 = 1 / 2 ^ 40"
    by (simp add: ulp_def binaryExponent_def power2_def)
  show ?thesis
    by (simp add: doubleTimes_def roundDouble_def roundHalfEven_def Let_def u)
qed

text \<open>The products of the policy that grows by the double nearest to 1.1.\<close>

lemma doubleTimes_100_factor:
  "doubleTimes 100 (2476979795053773 / 2251799813685248) = 7740561859543041 / 70368744177664"
proof -
  have u: "ulp (61924494876344325 / 562949953421312) = 1 / 2 ^ 46"
    by (simp add: ulp_def binaryExponent_def power2_def)
  show ?thesis
    by (simp add: doubleTimes_def roundDouble_def roundHalfEven_def Let_def u)
qed

lemma doubleTimes_110_factor:
  "doubleTimes (7740561859543041 / 70368744177664) (2476979795053773 / 2251799813685248)
     = 4257309022748673 / 35184372088832"
proof -
  have u: "ulp (19173215328451973722729802943693 / 158456325028528675187087900672) = 1 / 2 ^ 46"
    by (simp add: ulp_def binaryExponent_def power2_def)
  show ?thesis
    by (simp add: doubleTimes_def roundDouble_def roundHalfEven_def Let_def u)
qed

lemma doubleTimes_factor_factor:
  "doubleTimes (2476979795053773 / 2251799813685248) (2476979795053773 / 2251799813685248)
     = 5449355549118301 / 4503599627370496"
proof -
  have u: "ulp (6135428905104631294035961535529 / 5070602400912917605986812821504) = 1 / 2 ^ 52"
    by (simp add: ulp_def binaryExponent_def power2_def)
  show ?thesis
    by (simp add: doubleTimes_def roundDouble_def roundHalfEven_def Let_def u)
qed

lemma doubleTimes_100_square:
  "doubleTimes 100 (5449355549118301 / 4503599627370496) = 8514618045497345 / 70368744177664"
proof -
  have u: "ulp (136233888727957525 / 1125899906842624) = 1 / 2 ^ 46"
    by (simp add: ulp_def binaryExponent_def power2_def)
  show ?thesis
    by (simp add: doubleTimes_def roundDouble_def roundHalfEven_def Let_def u)
qed

subsection \<open>The retry loop\<close>

declare retry_loop.simps [simp del]

lemma retry_loop_first_rejection:
  assumes "attempt < maxAttempts options" and "wrapped req s = (Inl err, s')"
    and "case err of Foreign x \<Rightarrow> True
         | Typed e \<Rightarrow> type e \<notin> set (retryableErrors options) \<or> clientHttpError e
             \<or> maxAttempts options \<le> attempt + 1"
  shows "retry_loop options wrapped req lastError attempt waitTime s = (Inl err, s', [Wrapped req])"
  using assms by (subst retry_loop.simps) (auto split: thrown.splits)

lemma retry_loop_resolved:
  assumes "attempt < maxAttempts options" and "wrapped req s = (Inr v, s')"
  shows "retry_loop options wrapped req lastError attempt waitTime s = (Inr v, s', [Wrapped req])"
  using assms by (subst retry_loop.simps) simp

lemma retry_loop_again:
  assumes "attempt + 1 < maxAttempts options" and "wrapped req s = (Inl (Typed e), s')"
    and "type e \<in> set (retryableErrors options)" and "\<not> clientHttpError e"
  shows "retry_loop options wrapped req lastError attempt waitTime s =
           (case retry_loop options wrapped req (Some e) (attempt + 1)
                   (min (doubleTimes waitTime (backoffFactor options)) (maxDelay options)) s' of
              (r, s'', evs) \<Rightarrow> (r, s'', Wrapped req # Delay waitTime # evs))"
  using assms by (subst retry_loop.simps) simp

lemma retry_loop_exit:
  assumes "\<not> attempt < maxAttempts options"
  shows "trace (retry_loop options wrapped req lastError attempt waitTime s) = []"
  using assms by (subst retry_loop.simps) (simp add: trace_def)

text \<open>One turn of the loop either ends the call or waits and goes round again.\<close>

lemma retry_loop_trace:
  assumes "attempt < maxAttempts options"
  shows "trace (retry_loop options wrapped req lastError attempt waitTime s) = [Wrapped req]
   \<or> (\<exists>e s'. attempt + 1 < maxAttempts options
        \<and> trace (retry_loop options wrapped req lastError attempt waitTime s)
            = Wrapped req # Delay waitTime #
              trace (retry_loop options wrapped req (Some e) (attempt + 1)
                       (min (doubleTimes waitTime (backoffFactor options)) (maxDelay options)) s'))"
proof -
  obtain x s' where w: "wrapped req s = (x, s')" by force
  show ?thesis
  proof (cases x)
    case (Inr v)
    with w assms show ?thesis by (simp add: retry_loop_resolved trace_def)
  next
    case (Inl err)
    show ?thesis
    proof (cases "case err of Foreign x \<Rightarrow> True
         | Typed e \<Rightarrow> type e \<notin> set (retryableErrors options) \<or> clientHttpError e
             \<or> maxAttempts options \<le> attempt + 1")
      case True
      with w Inl assms show ?thesis by (simp add: retry_loop_first_rejection trace_def)
    next
      case False
      then obtain e where e: "err = Typed e" "type e \<in> set (retryableErrors options)"
        "\<not> clientHttpError e" "attempt + 1 < maxAttempts options"
        by (cases err) auto
      have "retry_loop options wrapped req lastError attempt waitTime s =
           (case retry_loop options wrapped req (Some e) (attempt + 1)
                   (min (doubleTimes waitTime (backoffFactor options)) (maxDelay options)) s' of
              (r, s'', evs) \<Rightarrow> (r, s'', Wrapped req # Delay waitTime # evs))"
        using w Inl e by (intro retry_loop_again) auto
      then have "trace (retry_loop options wrapped req lastError attempt waitTime s)
            = Wrapped req # Delay waitTime #
              trace (retry_loop options wrapped req (Some e) (attempt + 1)
                       (min (doubleTimes waitTime (backoffFactor options)) (maxDelay options)) s')"
        by (simp add: trace_def split: prod.splits)
      with e show ?thesis by blast
    qed
  qed
qed

lemma worldAfter_Suc:
  "worldAfter wrapped req (Suc n) s = worldAfter wrapped req n (snd (wrapped req s))"
  unfolding worldAfter_def by (simp only: funpow_Suc_right o_apply)

text \<open>
  With a contract that always rejects with a retryable error, the loop runs until the
  attempts are used up: induction on the number of attempts that are left.
\<close>

lemma retry_loop_exhausts:
  assumes fails: "\<forall>s. \<exists>e s'. wrapped req s = (Inl (Typed e), s')
                    \<and> type e \<in> set (retryableErrors options) \<and> \<not> clientHttpError e"
  shows "attempt < maxAttempts options \<Longrightarrow> Suc n = nat (maxAttempts options - attempt) \<Longrightarrow>
         \<exists>evs. retry_loop options wrapped req lastError attempt waitTime s
                 = (fst (wrapped req (worldAfter wrapped req n s)),
                    worldAfter wrapped req (Suc n) s, evs)
               \<and> wrappedCalls evs = replicate (Suc n) req"
proof (induction n arbitrary: attempt lastError waitTime s)
  case 0
  obtain e s' where w: "wrapped req s = (Inl (Typed e), s')"
    using fails by blast
  from 0 have "maxAttempts options \<le> attempt + 1" by linarith
  with 0 w have "retry_loop options wrapped req lastError attempt waitTime s
                   = (Inl (Typed e), s', [Wrapped req])"
    by (intro retry_loop_first_rejection) auto
  with w show ?case by (simp add: worldAfter_def)
next
  case (Suc n)
  obtain e s' where w: "wrapped req s = (Inl (Typed e), s')"
    and r: "type e \<in> set (retryableErrors options)" "\<not> clientHttpError e"
    using fails by blast
  from Suc.prems have lt: "attempt + 1 < maxAttempts options"
    and n: "Suc n = nat (maxAttempts options - (attempt + 1))" by linarith+
  obtain evs where
    ih: "retry_loop options wrapped req (Some e) (attempt + 1)
           (min (doubleTimes waitTime (backoffFactor options)) (maxDelay options)) s'
         = (fst (wrapped req (worldAfter wrapped req n s')), worldAfter wrapped req (Suc n) s', evs)"
    and c: "wrappedCalls evs = replicate (Suc n) req"
    using Suc.IH [OF _ n, of "Some e"
        "min (doubleTimes waitTime (backoffFactor options)) (maxDelay options)" s'] lt
    by auto
  have "retry_loop options wrapped req lastError attempt waitTime s
          = (fst (wrapped req (worldAfter wrapped req n s')), worldAfter wrapped req (Suc n) s',
             Wrapped req # Delay waitTime # evs)"
    using retry_loop_again [where wrapped = wrapped and req = req, OF lt w r] ih by simp
  with w c show ?case
    by (simp add: worldAfter_Suc)
qed

text \<open>
  C1. Let the policy allow at least one attempt, and let the wrapped contract reject
  every call with a typed error whose kind is retryable and which, if it is an HTTP
  error, has a status code of 500 or more. Then the decorator calls the wrapped contract
  exactly \<^verbatim>\<open>maxAttempts\<close> times, each time with the request it was given, and rejects with
  the error of the last of these calls. Under the default policy a contract that always
  rejects with a network failure is called exactly three times.
\<close>

theorem RetryDecorator_request_exhausts:
  "(1 \<le> maxAttempts options
    \<and> (\<forall>s. \<exists>e s'. wrapped req s = (Inl (Typed e), s')
           \<and> type e \<in> set (retryableErrors options)
           \<and> (type e = HTTP_ERROR \<longrightarrow> (\<exists>c. statusCode e = Some c \<and> 500 \<le> c))) \<longrightarrow>
    (\<exists>evs. RetryDecorator_request options wrapped req s
             = (fst (wrapped req (worldAfter wrapped req (nat (maxAttempts options) - 1) s)),
                worldAfter wrapped req (nat (maxAttempts options)) s, evs)
        \<and> wrappedCalls evs = replicate (nat (maxAttempts options)) req))
   \<and> ((\<forall>s. \<exists>e s'. wrapped req s = (Inl (Typed e), s') \<and> type e = NETWORK_FAILURE) \<longrightarrow>
    (\<exists>evs. RetryDecorator_request DEFAULT_RETRY_OPTIONS wrapped req s
             = (fst (wrapped req (worldAfter wrapped req 2 s)), worldAfter wrapped req 3 s, evs)
        \<and> wrappedCalls evs = [req, req, req]))"
proof (intro conjI impI)
  assume a: "1 \<le> maxAttempts options
    \<and> (\<forall>s. \<exists>e s'. wrapped req s = (Inl (Typed e), s')
           \<and> type e \<in> set (retryableErrors options)
           \<and> (type e = HTTP_ERROR \<longrightarrow> (\<exists>c. statusCode e = Some c \<and> 500 \<le> c)))"
  then have f: "\<forall>s. \<exists>e s'. wrapped req s = (Inl (Typed e), s')
                    \<and> type e \<in> set (retryableErrors options) \<and> \<not> clientHttpError e"
    by (fastforce simp: clientHttpError_def)
  obtain n where n: "Suc n = nat (maxAttempts options - 0)"
    using a by (cases "nat (maxAttempts options)") auto
  then have m: "nat (maxAttempts options) = Suc n" by simp
  show "\<exists>evs. RetryDecorator_request options wrapped req s
             = (fst (wrapped req (worldAfter wrapped req (nat (maxAttempts options) - 1) s)),
                worldAfter wrapped req (nat (maxAttempts options)) s, evs)
        \<and> wrappedCalls evs = replicate (nat (maxAttempts options)) req"
    unfolding RetryDecorator_request_def m
    using retry_loop_exhausts [where wrapped = wrapped and req = req, OF f _ n,
            of None "initialDelay options" s] a
    by simp
next
  assume a: "\<forall>s. \<exists>e s'. wrapped req s = (Inl (Typed e), s') \<and> type e = NETWORK_FAILURE"
  then have f: "\<forall>s. \<exists>e s'. wrapped req s = (Inl (Typed e), s')
                    \<and> type e \<in> set (retryableErrors DEFAULT_RETRY_OPTIONS) \<and> \<not> clientHttpError e"
    by (fastforce simp: clientHttpError_def DEFAULT_RETRY_OPTIONS_def)
  have n: "Suc 2 = nat (maxAttempts DEFAULT_RETRY_OPTIONS - 0)"
    by (simp add: DEFAULT_RETRY_OPTIONS_def)
  show "\<exists>evs. RetryDecorator_request DEFAULT_RETRY_OPTIONS wrapped req s
             = (fst (wrapped req (worldAfter wrapped req 2 s)), worldAfter wrapped req 3 s, evs)
        \<and> wrappedCalls evs = [req, req, req]"
    unfolding RetryDecorator_request_def
    using retry_loop_exhausts [where wrapped = wrapped and req = req, OF f _ n,
            of None "initialDelay DEFAULT_RETRY_OPTIONS" s]
    by (simp add: DEFAULT_RETRY_OPTIONS_def numeral_3_eq_3 numeral_2_eq_2)
qed

theorem RetryDecorator_request_exhausts_witness:
  "1 \<le> maxAttempts DEFAULT_RETRY_OPTIONS
   \<and> (\<forall>n. \<exists>e s'. (mockOffline :: (string, string, string, nat) NetworkRequestable) usersRequest n
                     = (Inl (Typed e), s')
          \<and> type e \<in> set (retryableErrors DEFAULT_RETRY_OPTIONS)
          \<and> (type e = HTTP_ERROR \<longrightarrow> (\<exists>c. statusCode e = Some c \<and> 500 \<le> c)))
   \<and> RetryDecorator_request DEFAULT_RETRY_OPTIONS mockOffline usersRequest 0
     = (Inl (Typed timeout), 3,
        [Wrapped usersRequest, Delay 300, Wrapped usersRequest, Delay 600, Wrapped usersRequest]
        :: (string, string, string) event list)
   \<and> wrappedCalls (trace (RetryDecorator_request DEFAULT_RETRY_OPTIONS
         (mockOffline :: (string, string, string, nat) NetworkRequestable) usersRequest 0))
     = replicate (nat (maxAttempts DEFAULT_RETRY_OPTIONS)) usersRequest
   \<and> (\<forall>n. \<exists>e s'. (mockError (Typed (networkFailure ''down''))
                      :: (string, string, string, nat) NetworkRequestable) usersRequest n
                     = (Inl (Typed e), s')
          \<and> type e = NETWORK_FAILURE)
   \<and> wrappedCalls (trace (RetryDecorator_request DEFAULT_RETRY_OPTIONS
         (mockError (Typed (networkFailure ''down''))
            :: (string, string, string, nat) NetworkRequestable) usersRequest 0))
     = [usersRequest, usersRequest, usersRequest]"
proof -
  have h1: "1 \<le> maxAttempts DEFAULT_RETRY_OPTIONS
     \<and> (\<forall>n. \<exists>e s'. (mockOffline :: (string, string, string, nat) NetworkRequestable) usersRequest n
                     = (Inl (Typed e), s')
          \<and> type e \<in> set (retryableErrors DEFAULT_RETRY_OPTIONS)
          \<and> (type e = HTTP_ERROR \<longrightarrow> (\<exists>c. statusCode e = Some c \<and> 500 \<le> c)))"
    by (simp add: DEFAULT_RETRY_OPTIONS_def mockOffline_def timeout_def networkFailure_def)
  have h2: "\<forall>n. \<exists>e s'. (mockError (Typed (networkFailure ''down''))
                      :: (string, string, string, nat) NetworkRequestable) usersRequest n
                     = (Inl (Typed e), s')
          \<and> type e = NETWORK_FAILURE"
    by (simp add: mockError_def networkFailure_def)
  note e1 = RetryDecorator_request_exhausts [of DEFAULT_RETRY_OPTIONS
      "mockOffline :: (string, string, string, nat) NetworkRequestable" usersRequest 0,
      THEN conjunct1, THEN mp, OF h1]
  note e2 = RetryDecorator_request_exhausts [of _
      "mockError (Typed (networkFailure ''down'')) :: (string, string, string, nat) NetworkRequestable"
      usersRequest 0, THEN conjunct2, THEN mp, OF h2]
  have r1: "RetryDecorator_request DEFAULT_RETRY_OPTIONS mockOffline usersRequest 0
     = (Inl (Typed timeout), 3,
        [Wrapped usersRequest, Delay 300, Wrapped usersRequest, Delay 600, Wrapped usersRequest]
        :: (string, string, string) event list)"
    by (simp add: RetryDecorator_request_def retry_loop.simps DEFAULT_RETRY_OPTIONS_def
        mockOffline_def timeout_def networkFailure_def clientHttpError_def doubleTimes_300_2)
  from e2 have r2: "wrappedCalls (trace (RetryDecorator_request DEFAULT_RETRY_OPTIONS
         (mockError (Typed (networkFailure ''down''))
            :: (string, string, string, nat) NetworkRequestable) usersRequest 0))
     = [usersRequest, usersRequest, usersRequest]"
    by (auto simp: trace_def)
  from e1 have r3: "wrappedCalls (trace (RetryDecorator_request DEFAULT_RETRY_OPTIONS
         (mockOffline :: (string, string, string, nat) NetworkRequestable) usersRequest 0))
     = replicate (nat (maxAttempts DEFAULT_RETRY_OPTIONS)) usersRequest"
    by (auto simp: trace_def)
  from h1 h2 r1 r2 r3 show ?thesis by simp
qed

subsection \<open>The backoff\<close>

lemma capped_backoff:
  fixes a M c :: real
  assumes "0 \<le> M" and "1 \<le> c" and "0 \<le> a"
  shows "min (min a M * c) M = min (a * c) M"
proof (cases "a \<le> M")
  case True
  then show ?thesis by (simp add: min_absorb1)
next
  case False
  then have "M < a" by simp
  have "M * 1 \<le> M * c" using assms by (intro mult_left_mono) auto
  moreover have "a * 1 \<le> a * c" using assms by (intro mult_left_mono) auto
  ultimately show ?thesis using \<open>M < a\<close> by (simp add: min_def)
qed

text \<open>
  A run that starts with an attempt left is a call, then each of its waits followed by a
  call.
\<close>

lemma retry_loop_alternates:
  "n = nat (maxAttempts options - attempt) \<Longrightarrow> attempt < maxAttempts options \<Longrightarrow>
   trace (retry_loop options wrapped req lastError attempt waitTime s)
     = retryTrace req (waits (trace (retry_loop options wrapped req lastError attempt waitTime s)))"
proof (induction n arbitrary: attempt lastError waitTime s)
  case 0
  then show ?case by linarith
next
  case (Suc n)
  from retry_loop_trace [OF Suc.prems(2), of wrapped req lastError waitTime s]
  consider "trace (retry_loop options wrapped req lastError attempt waitTime s) = [Wrapped req]"
    | e s' where "attempt + 1 < maxAttempts options"
      "trace (retry_loop options wrapped req lastError attempt waitTime s)
              = Wrapped req # Delay waitTime #
                trace (retry_loop options wrapped req (Some e) (attempt + 1)
                  (min (doubleTimes waitTime (backoffFactor options)) (maxDelay options)) s')"
    by auto
  then show ?case
  proof cases
    case 1
    then show ?thesis by simp
  next
    case 2
    have n: "n = nat (maxAttempts options - (attempt + 1))"
      using Suc.prems(1) by linarith
    show ?thesis using Suc.IH [OF n 2(1), of "Some e" _ s'] 2(2) by simp
  qed
qed

text \<open>
  Started with the wait \<open>waitTime\<close>, the loop waits, before its re-invocation number
  \<open>k + 1\<close>, what \<open>k\<close> updates make of \<open>waitTime\<close>.
\<close>

lemma retry_loop_waits:
  "n = nat (maxAttempts options - attempt) \<Longrightarrow>
   k < length (waits (trace (retry_loop options wrapped req lastError attempt waitTime s))) \<Longrightarrow>
   waits (trace (retry_loop options wrapped req lastError attempt waitTime s)) ! k
     = ((\<lambda>d. min (doubleTimes d (backoffFactor options)) (maxDelay options)) ^^ k) waitTime"
proof (induction n arbitrary: attempt lastError waitTime s k)
  case 0
  then have "\<not> attempt < maxAttempts options" by linarith
  with "0.prems"(2) show ?case by (simp add: retry_loop_exit)
next
  case (Suc n)
  let ?update = "\<lambda>d. min (doubleTimes d (backoffFactor options)) (maxDelay options)"
  from Suc.prems(1) have "attempt < maxAttempts options" by linarith
  from retry_loop_trace [OF this, of wrapped req lastError waitTime s] Suc.prems(2)
  obtain e s' where lt: "attempt + 1 < maxAttempts options"
    and t: "trace (retry_loop options wrapped req lastError attempt waitTime s)
              = Wrapped req # Delay waitTime #
                trace (retry_loop options wrapped req (Some e) (attempt + 1)
                  (?update waitTime) s')"
    by auto
  show ?case
  proof (cases k)
    case 0
    with t show ?thesis by simp
  next
    case (Suc j)
    have n: "n = nat (maxAttempts options - (attempt + 1))"
      using Suc.prems(1) by linarith
    have j: "j < length (waits (trace (retry_loop options wrapped req (Some e) (attempt + 1)
                (?update waitTime) s')))"
      using Suc.prems(2) t Suc by simp
    have "waits (trace (retry_loop options wrapped req (Some e) (attempt + 1)
                (?update waitTime) s')) ! j
            = (?update ^^ j) (?update waitTime)"
      using Suc.IH [OF n j] by simp
    moreover have "(?update ^^ Suc j) waitTime = (?update ^^ j) (?update waitTime)"
      by (simp only: funpow_Suc_right comp_apply)
    ultimately show ?thesis using t Suc by (simp del: funpow.simps)
  qed
qed

text \<open>No update takes the wait above the maximal delay.\<close>

lemma updates_bounded:
  fixes w M :: real
  assumes "w \<le> M"
  shows "((\<lambda>d. min (doubleTimes d c) M) ^^ k) w \<le> M"
  using assms by (cases k) simp_all

text \<open>
  As long as the products do not round, the updates make the capped exponential.
\<close>

lemma updates_closed_form:
  fixes w M c :: real
  assumes "0 \<le> M" and "1 \<le> c" and "0 \<le> w" and "w \<le> M"
  shows "(\<forall>j < k. doubleTimes (((\<lambda>d. min (doubleTimes d c) M) ^^ j) w) c
                    = ((\<lambda>d. min (doubleTimes d c) M) ^^ j) w * c) \<Longrightarrow>
         ((\<lambda>d. min (doubleTimes d c) M) ^^ k) w = min (w * c ^ k) M"
proof (induction k)
  case 0
  with assms show ?case by (simp add: min_absorb1)
next
  case (Suc k)
  let ?update = "\<lambda>d. min (doubleTimes d c) M"
  from Suc.prems have ex: "doubleTimes ((?update ^^ k) w) c = (?update ^^ k) w * c"
    and before: "\<forall>j < k. doubleTimes ((?update ^^ j) w) c = (?update ^^ j) w * c"
    by simp_all
  have ih: "(?update ^^ k) w = min (w * c ^ k) M"
    using Suc.IH [OF before] .
  have "0 \<le> w * c ^ k"
    using assms by simp
  then have "min (min (w * c ^ k) M * c) M = min (w * c ^ k * c) M"
    using assms by (intro capped_backoff) auto
  with ex ih show ?case by (simp add: mult_ac)
qed

text \<open>
  C8, as amended. Under the preconditions of the policy (at least one attempt, an
  initial delay of at least 0, a backoff factor of at least 1, a maximal delay of at
  least the initial delay), a run of the decorator is a call followed, for each wait, by
  the wait and a call: the \<open>k\<close>-th wait comes just before the \<open>k\<close>-th re-invocation. That
  wait is the delay as the loop updates it: the initial delay for \<open>k = 1\<close>, and
  \<open>min (previous wait * backoffFactor) maxDelay\<close> after that, the product being the
  rounded product of doubles. Every wait is at most the maximal delay. And when none of
  the products taken before the \<open>k\<close>-th wait is rounded, that wait is
  \<open>min (initialDelay * backoffFactor ^ (k - 1)) maxDelay\<close>.
\<close>

theorem RetryDecorator_request_backoff:
  "1 \<le> maxAttempts options \<and> 0 \<le> initialDelay options \<and> 1 \<le> backoffFactor options
   \<and> initialDelay options \<le> maxDelay options \<longrightarrow>
   trace (RetryDecorator_request options wrapped req s)
     = retryTrace req (waits (trace (RetryDecorator_request options wrapped req s)))
   \<and> (\<forall>k. 1 \<le> k \<and> k \<le> length (waits (trace (RetryDecorator_request options wrapped req s))) \<longrightarrow>
        waits (trace (RetryDecorator_request options wrapped req s)) ! (k - 1)
          = ((\<lambda>d. min (doubleTimes d (backoffFactor options)) (maxDelay options)) ^^ (k - 1))
              (initialDelay options)
        \<and> waits (trace (RetryDecorator_request options wrapped req s)) ! (k - 1)
            \<le> maxDelay options
        \<and> (list_all (\<lambda>d. doubleTimes d (backoffFactor options) = d * backoffFactor options)
              (take (k - 1) (waits (trace (RetryDecorator_request options wrapped req s)))) \<longrightarrow>
            waits (trace (RetryDecorator_request options wrapped req s)) ! (k - 1)
              = min (initialDelay options * backoffFactor options ^ (k - 1)) (maxDelay options)))"
proof (intro impI conjI allI)
  let ?run = "RetryDecorator_request options wrapped req s"
  let ?update = "\<lambda>d. min (doubleTimes d (backoffFactor options)) (maxDelay options)"
  assume a: "1 \<le> maxAttempts options \<and> 0 \<le> initialDelay options \<and> 1 \<le> backoffFactor options
   \<and> initialDelay options \<le> maxDelay options"
  show "trace ?run = retryTrace req (waits (trace ?run))"
    unfolding RetryDecorator_request_def using a by (intro retry_loop_alternates [OF refl]) simp
  have nth: "waits (trace ?run) ! j = (?update ^^ j) (initialDelay options)"
    if "j < length (waits (trace ?run))" for j
    using that unfolding RetryDecorator_request_def by (intro retry_loop_waits [OF refl])
  fix k
  assume k: "1 \<le> k \<and> k \<le> length (waits (trace ?run))"
  then have k1: "k - 1 < length (waits (trace ?run))" by linarith
  show iter: "waits (trace ?run) ! (k - 1) = (?update ^^ (k - 1)) (initialDelay options)"
    using nth [OF k1] .
  show "waits (trace ?run) ! (k - 1) \<le> maxDelay options"
    unfolding iter using a by (intro updates_bounded) simp
  assume exact: "list_all (\<lambda>d. doubleTimes d (backoffFactor options) = d * backoffFactor options)
              (take (k - 1) (waits (trace ?run)))"
  have "\<forall>j < k - 1. doubleTimes ((?update ^^ j) (initialDelay options)) (backoffFactor options)
                      = (?update ^^ j) (initialDelay options) * backoffFactor options"
  proof (intro allI impI)
    fix j assume j: "j < k - 1"
    then have l: "j < length (take (k - 1) (waits (trace ?run)))"
      using k1 by simp
    from exact l have "doubleTimes (take (k - 1) (waits (trace ?run)) ! j) (backoffFactor options)
                        = take (k - 1) (waits (trace ?run)) ! j * backoffFactor options"
      by (simp add: list_all_length)
    moreover have "take (k - 1) (waits (trace ?run)) ! j = (?update ^^ j) (initialDelay options)"
      using j k1 nth [of j] by simp
    ultimately show "doubleTimes ((?update ^^ j) (initialDelay options)) (backoffFactor options)
                      = (?update ^^ j) (initialDelay options) * backoffFactor options"
      by simp
  qed
  then have "(?update ^^ (k - 1)) (initialDelay options)
               = min (initialDelay options * backoffFactor options ^ (k - 1)) (maxDelay options)"
    using a by (intro updates_closed_form) auto
  with iter show "waits (trace ?run) ! (k - 1)
              = min (initialDelay options * backoffFactor options ^ (k - 1)) (maxDelay options)"
    by simp
qed

theorem RetryDecorator_request_backoff_witness:
  "1 \<le> maxAttempts (DEFAULT_RETRY_OPTIONS\<lparr>maxAttempts := 6\<rparr>)
   \<and> 0 \<le> initialDelay (DEFAULT_RETRY_OPTIONS\<lparr>maxAttempts := 6\<rparr>)
   \<and> 1 \<le> backoffFactor (DEFAULT_RETRY_OPTIONS\<lparr>maxAttempts := 6\<rparr>)
   \<and> initialDelay (DEFAULT_RETRY_OPTIONS\<lparr>maxAttempts := 6\<rparr>)
       \<le> maxDelay (DEFAULT_RETRY_OPTIONS\<lparr>maxAttempts := 6\<rparr>)
   \<and> trace (RetryDecorator_request (DEFAULT_RETRY_OPTIONS\<lparr>maxAttempts := 6\<rparr>)
        (mockError (Typed timeout) :: (string, string, string, nat) NetworkRequestable)
        usersRequest 0)
      = [Wrapped usersRequest, Delay 300, Wrapped usersRequest, Delay 600, Wrapped usersRequest,
         Delay 1200, Wrapped usersRequest, Delay 2400, Wrapped usersRequest, Delay 3000,
         Wrapped usersRequest]
   \<and> list_all (\<lambda>d. doubleTimes d 2 = d * 2) [300, 600, 1200, 2400]
   \<and> waits (trace (RetryDecorator_request (DEFAULT_RETRY_OPTIONS\<lparr>maxAttempts := 6\<rparr>)
        (mockError (Typed timeout) :: (string, string, string, nat) NetworkRequestable)
        usersRequest 0)) ! (5 - 1)
      = min (300 * 2 ^ (5 - 1)) 3000"
proof -
  let ?options = "DEFAULT_RETRY_OPTIONS\<lparr>maxAttempts := 6\<rparr>"
  let ?run = "RetryDecorator_request ?options
        (mockError (Typed timeout) :: (string, string, string, nat) NetworkRequestable)
        usersRequest 0"
  have pre: "1 \<le> maxAttempts ?options \<and> 0 \<le> initialDelay ?options
     \<and> 1 \<le> backoffFactor ?options \<and> initialDelay ?options \<le> maxDelay ?options"
    by (simp add: DEFAULT_RETRY_OPTIONS_def)
  have t: "trace ?run
      = [Wrapped usersRequest, Delay 300, Wrapped usersRequest, Delay 600, Wrapped usersRequest,
         Delay 1200, Wrapped usersRequest, Delay 2400, Wrapped usersRequest, Delay 3000,
         Wrapped usersRequest]"
    by (simp add: RetryDecorator_request_def retry_loop.simps DEFAULT_RETRY_OPTIONS_def
        mockError_def timeout_def clientHttpError_def trace_def
        doubleTimes_300_2 doubleTimes_600_2 doubleTimes_1200_2 doubleTimes_2400_2)
  have x: "list_all (\<lambda>d. doubleTimes d 2 = d * 2) [300, 600, 1200, 2400]"
    by (simp add: doubleTimes_300_2 doubleTimes_600_2 doubleTimes_1200_2 doubleTimes_2400_2)
  note b = RetryDecorator_request_backoff [of ?options
      "mockError (Typed timeout) :: (string, string, string, nat) NetworkRequestable"
      usersRequest 0, THEN mp, OF pre]
  from b [THEN conjunct2, THEN spec, of 5] t x
  have k: "waits (trace ?run) ! (5 - 1) = min (300 * 2 ^ (5 - 1)) 3000"
    by (simp add: DEFAULT_RETRY_OPTIONS_def)
  from pre t x k show ?thesis by simp
qed

text \<open>
  Under the policy that starts at 100 ms and grows by the double nearest to 1.1, which
  meets the preconditions, the second wait is the double \<^verbatim>\<open>110.00000000000001\<close>, not
  the product of 100 and the factor, and the third is \<^verbatim>\<open>121.00000000000003\<close>, which
  is neither 100 times the square of the factor nor that value computed in doubles,
  \<^verbatim>\<open>121.00000000000001\<close>.
\<close>

theorem RetryDecorator_request_backoff_counterexample:
  "1 \<le> maxAttempts tenPercentOptions \<and> 0 \<le> initialDelay tenPercentOptions
   \<and> 1 \<le> backoffFactor tenPercentOptions
   \<and> initialDelay tenPercentOptions \<le> maxDelay tenPercentOptions
   \<and> waits (trace (RetryDecorator_request tenPercentOptions
        (mockError (Typed timeout) :: (string, string, string, nat) NetworkRequestable)
        usersRequest 0))
      = [100, 7740561859543041 / 70368744177664, 4257309022748673 / 35184372088832]
   \<and> min (initialDelay tenPercentOptions * backoffFactor tenPercentOptions ^ (2 - 1))
        (maxDelay tenPercentOptions)
      = 61924494876344325 / 562949953421312
   \<and> (7740561859543041 / 70368744177664 :: real) \<noteq> 61924494876344325 / 562949953421312
   \<and> min (initialDelay tenPercentOptions * backoffFactor tenPercentOptions ^ (3 - 1))
        (maxDelay tenPercentOptions)
      = 153385722627615782350899038388225 / 1267650600228229401496703205376
   \<and> (4257309022748673 / 35184372088832 :: real)
       \<noteq> 153385722627615782350899038388225 / 1267650600228229401496703205376
   \<and> doubleTimes 100 (doubleTimes (backoffFactor tenPercentOptions)
        (backoffFactor tenPercentOptions))
      = 8514618045497345 / 70368744177664
   \<and> (4257309022748673 / 35184372088832 :: real) \<noteq> 8514618045497345 / 70368744177664"
proof -
  have w: "waits (trace (RetryDecorator_request tenPercentOptions
        (mockError (Typed timeout) :: (string, string, string, nat) NetworkRequestable)
        usersRequest 0))
      = [100, 7740561859543041 / 70368744177664, 4257309022748673 / 35184372088832]"
    by (simp add: RetryDecorator_request_def retry_loop.simps tenPercentOptions_def
        mockError_def timeout_def clientHttpError_def trace_def
        doubleTimes_100_factor doubleTimes_110_factor)
  have c: "doubleTimes 100 (doubleTimes (backoffFactor tenPercentOptions)
        (backoffFactor tenPercentOptions))
      = 8514618045497345 / 70368744177664"
    by (simp add: tenPercentOptions_def doubleTimes_factor_factor doubleTimes_100_square)
  show ?thesis
    unfolding w c by (simp add: tenPercentOptions_def power2_eq_square)
qed

subsection \<open>Errors that are not retried and do not fall back\<close>

lemma FallbackDecorator_request_propagates:
  assumes "primary req s = (Inl err, s')"
    and "case err of Foreign x \<Rightarrow> True
         | Typed e \<Rightarrow> type e \<notin> set (fallbackErrors options) \<or> clientHttpError e"
  shows "FallbackDecorator_request options primary fallback req s = (Inl err, s', [Primary req])"
  using assms by (auto simp: FallbackDecorator_request_def split: thrown.splits)

lemma FallbackDecorator_request_falls_back:
  assumes "primary req s = (Inl (Typed e), s')"
    and "type e \<in> set (fallbackErrors options)" and "\<not> clientHttpError e"
  shows "FallbackDecorator_request options primary fallback req s
           = (fst (fallback req s'), snd (fallback req s'), [Primary req, Fallback req])"
  using assms by (auto simp: FallbackDecorator_request_def split: prod.splits)

text \<open>
  C2, as amended. When the first call of the wrapped contract (the retry decorator, under
  a policy of at least one attempt) or the call of the primary contract (the fallback
  decorator) rejects with an error that is not a typed one, or with a typed error whose
  kind is not in the configured set, or with an HTTP error whose status code is below 500
  and is not 0, the decorator rejects with that very error after this one call: nothing
  is retried, no wait is made and the fallback contract is not called. In particular,
  under the default policy, a rejection with HTTP error 404 ends the call at once.
\<close>

theorem ineligible_error_propagates:
  "(1 \<le> maxAttempts options \<and> wrapped req s = (Inl err, s')
     \<and> ((\<exists>x. err = Foreign x)
         \<or> (\<exists>e. err = Typed e \<and> type e \<notin> set (retryableErrors options))
         \<or> (\<exists>e c. err = Typed e \<and> type e = HTTP_ERROR \<and> statusCode e = Some c
               \<and> c \<noteq> 0 \<and> c < 500)) \<longrightarrow>
      RetryDecorator_request options wrapped req s = (Inl err, s', [Wrapped req]))
   \<and> (primary req s = (Inl err, s')
     \<and> ((\<exists>x. err = Foreign x)
         \<or> (\<exists>e. err = Typed e \<and> type e \<notin> set (fallbackErrors foptions))
         \<or> (\<exists>e c. err = Typed e \<and> type e = HTTP_ERROR \<and> statusCode e = Some c
               \<and> c \<noteq> 0 \<and> c < 500)) \<longrightarrow>
      FallbackDecorator_request foptions primary fallback req s = (Inl err, s', [Primary req]))
   \<and> (wrapped req s = (Inl (Typed (httpError 404)), s') \<longrightarrow>
      RetryDecorator_request DEFAULT_RETRY_OPTIONS wrapped req s
        = (Inl (Typed (httpError 404)), s', [Wrapped req]))"
proof (intro conjI impI)
  assume a: "1 \<le> maxAttempts options \<and> wrapped req s = (Inl err, s')
     \<and> ((\<exists>x. err = Foreign x)
         \<or> (\<exists>e. err = Typed e \<and> type e \<notin> set (retryableErrors options))
         \<or> (\<exists>e c. err = Typed e \<and> type e = HTTP_ERROR \<and> statusCode e = Some c
               \<and> c \<noteq> 0 \<and> c < 500))"
  then have "case err of Foreign x \<Rightarrow> True
         | Typed e \<Rightarrow> type e \<notin> set (retryableErrors options) \<or> clientHttpError e
             \<or> maxAttempts options \<le> 0 + 1"
    by (auto simp: clientHttpError_def split: thrown.splits)
  with a show "RetryDecorator_request options wrapped req s = (Inl err, s', [Wrapped req])"
    unfolding RetryDecorator_request_def by (intro retry_loop_first_rejection) auto
next
  assume a: "primary req s = (Inl err, s')
     \<and> ((\<exists>x. err = Foreign x)
         \<or> (\<exists>e. err = Typed e \<and> type e \<notin> set (fallbackErrors foptions))
         \<or> (\<exists>e c. err = Typed e \<and> type e = HTTP_ERROR \<and> statusCode e = Some c
               \<and> c \<noteq> 0 \<and> c < 500))"
  then have "case err of Foreign x \<Rightarrow> True
         | Typed e \<Rightarrow> type e \<notin> set (fallbackErrors foptions) \<or> clientHttpError e"
    by (auto simp: clientHttpError_def split: thrown.splits)
  with a show "FallbackDecorator_request foptions primary fallback req s
                 = (Inl err, s', [Primary req])"
    by (intro FallbackDecorator_request_propagates) auto
next
  assume a: "wrapped req s = (Inl (Typed (httpError 404)), s')"
  have "clientHttpError (httpError 404)"
    by (simp add: clientHttpError_def httpError_def)
  with a show "RetryDecorator_request DEFAULT_RETRY_OPTIONS wrapped req s
        = (Inl (Typed (httpError 404)), s', [Wrapped req])"
    unfolding RetryDecorator_request_def
    by (intro retry_loop_first_rejection) (auto simp: DEFAULT_RETRY_OPTIONS_def)
qed

theorem ineligible_error_propagates_witness:
  "1 \<le> maxAttempts DEFAULT_RETRY_OPTIONS
   \<and> (mockError (Foreign ''TypeError'') :: (string, string, string, nat) NetworkRequestable)
        usersRequest 0 = (Inl (Foreign ''TypeError''), 1)
   \<and> RetryDecorator_request DEFAULT_RETRY_OPTIONS
        (mockError (Foreign ''TypeError'') :: (string, string, string, nat) NetworkRequestable)
        usersRequest 0
      = (Inl (Foreign ''TypeError''), 1, [Wrapped usersRequest])
   \<and> (mockError (Typed unauthorized) :: (string, string, string, nat) NetworkRequestable)
        usersRequest 0 = (Inl (Typed unauthorized), 1)
   \<and> type unauthorized \<notin> set (fallbackErrors DEFAULT_FALLBACK_OPTIONS)
   \<and> FallbackDecorator_request DEFAULT_FALLBACK_OPTIONS
        (mockError (Typed unauthorized) :: (string, string, string, nat) NetworkRequestable)
        (mockResponse ''backup'') usersRequest 0
      = (Inl (Typed unauthorized), 1, [Primary usersRequest])
   \<and> (mockError (Typed (httpError 404)) :: (string, string, string, nat) NetworkRequestable)
        usersRequest 0 = (Inl (Typed (httpError 404)), 1)
   \<and> RetryDecorator_request DEFAULT_RETRY_OPTIONS
        (mockError (Typed (httpError 404)) :: (string, string, string, nat) NetworkRequestable)
        usersRequest 0
      = (Inl (Typed (httpError 404)), 1, [Wrapped usersRequest])"
proof -
  let ?foreign = "mockError (Foreign ''TypeError'') :: (string, string, string, nat) NetworkRequestable"
  let ?unauth = "mockError (Typed unauthorized) :: (string, string, string, nat) NetworkRequestable"
  let ?notFound = "mockError (Typed (httpError 404)) :: (string, string, string, nat) NetworkRequestable"
  have a1: "1 \<le> maxAttempts DEFAULT_RETRY_OPTIONS
      \<and> ?foreign usersRequest 0 = (Inl (Foreign ''TypeError''), 1)
      \<and> ((\<exists>x. Foreign ''TypeError'' = Foreign x)
         \<or> (\<exists>e. Foreign ''TypeError'' = Typed e
               \<and> type e \<notin> set (retryableErrors DEFAULT_RETRY_OPTIONS))
         \<or> (\<exists>e c. Foreign ''TypeError'' = Typed e \<and> type e = HTTP_ERROR \<and> statusCode e = Some c
               \<and> c \<noteq> 0 \<and> c < 500))"
    by (simp add: DEFAULT_RETRY_OPTIONS_def mockError_def)
  have a2: "?unauth usersRequest 0 = (Inl (Typed unauthorized), 1)
      \<and> ((\<exists>x. Typed unauthorized = Foreign x)
         \<or> (\<exists>e. Typed unauthorized = Typed e
               \<and> type e \<notin> set (fallbackErrors DEFAULT_FALLBACK_OPTIONS))
         \<or> (\<exists>e c. Typed unauthorized = Typed e \<and> type e = HTTP_ERROR \<and> statusCode e = Some c
               \<and> c \<noteq> 0 \<and> c < 500))"
    by (simp add: DEFAULT_FALLBACK_OPTIONS_def mockError_def unauthorized_def)
  have a3: "?notFound usersRequest 0 = (Inl (Typed (httpError 404)), 1)"
    by (simp add: mockError_def)
  note b1 = ineligible_error_propagates [of DEFAULT_RETRY_OPTIONS ?foreign usersRequest 0
      "Foreign ''TypeError''" 1, THEN conjunct1, THEN mp, OF a1]
  note b2 = ineligible_error_propagates [where primary = ?unauth and req = usersRequest
      and s = 0 and err = "Typed unauthorized" and s' = 1
      and foptions = DEFAULT_FALLBACK_OPTIONS and fallback = "mockResponse ''backup''",
      THEN conjunct2, THEN conjunct1, THEN mp, OF a2]
  note b3 = ineligible_error_propagates [where wrapped = ?notFound and req = usersRequest
      and s = 0 and s' = 1, THEN conjunct2, THEN conjunct2, THEN mp, OF a3]
  have k: "type unauthorized \<notin> set (fallbackErrors DEFAULT_FALLBACK_OPTIONS)"
    by (simp add: DEFAULT_FALLBACK_OPTIONS_def unauthorized_def)
  from a1 a2 a3 b1 b2 b3 k show ?thesis by simp
qed

text \<open>
  An HTTP error of status code 0, which is a number below 500 and so is among the errors
  the specification has propagated at once, is retried to exhaustion by the retry
  decorator and answered by the fallback contract in the fallback decorator.
\<close>

theorem ineligible_error_counterexample:
  "statusCode (httpError 0) = Some 0 \<and> type (httpError 0) = HTTP_ERROR
   \<and> propagatesAtOnce (retryableErrors DEFAULT_RETRY_OPTIONS) (Typed (httpError 0))
   \<and> RetryDecorator_request DEFAULT_RETRY_OPTIONS (mockError (Typed (httpError 0))) usersRequest 0
      = (Inl (Typed (httpError 0)), 3,
         [Wrapped usersRequest, Delay 300, Wrapped usersRequest, Delay 600, Wrapped usersRequest]
         :: (string, string, string) event list)
   \<and> propagatesAtOnce (fallbackErrors DEFAULT_FALLBACK_OPTIONS) (Typed (httpError 0))
   \<and> FallbackDecorator_request DEFAULT_FALLBACK_OPTIONS (mockError (Typed (httpError 0)))
        (mockResponse ''backup'') usersRequest 0
      = (Inr ''backup'', 2, [Primary usersRequest, Fallback usersRequest])"
  by (simp add: RetryDecorator_request_def retry_loop.simps DEFAULT_RETRY_OPTIONS_def
      FallbackDecorator_request_def DEFAULT_FALLBACK_OPTIONS_def propagatesAtOnce_def
      mockError_def mockResponse_def httpError_def clientHttpError_def doubleTimes_300_2)

subsection \<open>Fallback\<close>

text \<open>
  C5. Every call of the fallback decorator calls the primary contract exactly once, with
  the request it was given, and the fallback contract at most once. If the primary
  resolves, its result is returned and the fallback contract is not called. If the
  primary rejects with a typed error whose kind is in the configured set and which is not
  an HTTP error with a status code below 500, the fallback contract is called exactly
  once, with the same request and in the world the primary left, and what it returns,
  result or error, is what the decorator returns.
\<close>

theorem FallbackDecorator_request_calls:
  "primaryCalls (trace (FallbackDecorator_request options primary fallback req s)) = [req]
   \<and> length (fallbackCalls (trace (FallbackDecorator_request options primary fallback req s))) \<le> 1
   \<and> (primary req s = (Inr v, s') \<longrightarrow>
        FallbackDecorator_request options primary fallback req s = (Inr v, s', [Primary req]))
   \<and> (primary req s = (Inl (Typed e), s') \<and> type e \<in> set (fallbackErrors options)
        \<and> (type e = HTTP_ERROR \<longrightarrow> (\<forall>c. statusCode e = Some c \<longrightarrow> 500 \<le> c)) \<longrightarrow>
        FallbackDecorator_request options primary fallback req s
          = (fst (fallback req s'), snd (fallback req s'), [Primary req, Fallback req]))"
proof (intro conjI impI)
  show "primaryCalls (trace (FallbackDecorator_request options primary fallback req s)) = [req]"
    by (simp add: FallbackDecorator_request_def trace_def
        split: prod.splits sum.splits thrown.splits)
next
  show "length (fallbackCalls (trace (FallbackDecorator_request options primary fallback req s))) \<le> 1"
    by (simp add: FallbackDecorator_request_def trace_def
        split: prod.splits sum.splits thrown.splits)
next
  assume "primary req s = (Inr v, s')"
  then show "FallbackDecorator_request options primary fallback req s = (Inr v, s', [Primary req])"
    by (simp add: FallbackDecorator_request_def)
next
  assume a: "primary req s = (Inl (Typed e), s') \<and> type e \<in> set (fallbackErrors options)
        \<and> (type e = HTTP_ERROR \<longrightarrow> (\<forall>c. statusCode e = Some c \<longrightarrow> 500 \<le> c))"
  then have "\<not> clientHttpError e"
    by (auto simp: clientHttpError_def split: option.splits)
  with a show "FallbackDecorator_request options primary fallback req s
          = (fst (fallback req s'), snd (fallback req s'), [Primary req, Fallback req])"
    by (intro FallbackDecorator_request_falls_back) auto
qed

theorem FallbackDecorator_request_calls_witness:
  "(mockResponse ''main'' :: (string, string, string, nat) NetworkRequestable) usersRequest 0
      = (Inr ''main'', 1)
   \<and> FallbackDecorator_request DEFAULT_FALLBACK_OPTIONS (mockResponse ''main'')
        (mockResponse ''backup'') usersRequest 0
      = (Inr ''main'', 1, [Primary usersRequest])
   \<and> (mockError (Typed (httpError 503)) :: (string, string, string, nat) NetworkRequestable)
        usersRequest 0 = (Inl (Typed (httpError 503)), 1)
   \<and> type (httpError 503) \<in> set (fallbackErrors DEFAULT_FALLBACK_OPTIONS)
   \<and> statusCode (httpError 503) = Some 503 \<and> (500 :: int) \<le> 503
   \<and> FallbackDecorator_request DEFAULT_FALLBACK_OPTIONS (mockError (Typed (httpError 503)))
        (mockResponse ''backup'') usersRequest 0
      = (Inr ''backup'', 2, [Primary usersRequest, Fallback usersRequest])
   \<and> FallbackDecorator_request DEFAULT_FALLBACK_OPTIONS (mockError (Typed (httpError 503)))
        (mockError (Typed timeout) :: (string, string, string, nat) NetworkRequestable)
        usersRequest 0
      = (Inl (Typed timeout), 2, [Primary usersRequest, Fallback usersRequest])"
proof -
  let ?main = "mockResponse ''main'' :: (string, string, string, nat) NetworkRequestable"
  let ?backup = "mockResponse ''backup'' :: (string, string, string, nat) NetworkRequestable"
  let ?down = "mockError (Typed (httpError 503)) :: (string, string, string, nat) NetworkRequestable"
  let ?late = "mockError (Typed timeout) :: (string, string, string, nat) NetworkRequestable"
  have a1: "?main usersRequest 0 = (Inr ''main'', 1)"
    by (simp add: mockResponse_def)
  have a2: "?down usersRequest 0 = (Inl (Typed (httpError 503)), 1)
      \<and> type (httpError 503) \<in> set (fallbackErrors DEFAULT_FALLBACK_OPTIONS)
      \<and> (type (httpError 503) = HTTP_ERROR \<longrightarrow>
           (\<forall>c. statusCode (httpError 503) = Some c \<longrightarrow> 500 \<le> c))"
    by (simp add: mockError_def httpError_def DEFAULT_FALLBACK_OPTIONS_def)
  note b1 = FallbackDecorator_request_calls [where primary = ?main and fallback = ?backup
      and options = DEFAULT_FALLBACK_OPTIONS and req = usersRequest and s = 0,
      THEN conjunct2, THEN conjunct2, THEN conjunct1, THEN mp, OF a1]
  note b2 = FallbackDecorator_request_calls [where primary = ?down and fallback = ?backup
      and options = DEFAULT_FALLBACK_OPTIONS and req = usersRequest and s = 0,
      THEN conjunct2, THEN conjunct2, THEN conjunct2, THEN mp, OF a2]
  note b3 = FallbackDecorator_request_calls [where primary = ?down and fallback = ?late
      and options = DEFAULT_FALLBACK_OPTIONS and req = usersRequest and s = 0,
      THEN conjunct2, THEN conjunct2, THEN conjunct2, THEN mp, OF a2]
  have k: "statusCode (httpError 503) = Some 503"
    by (simp add: httpError_def)
  from a1 a2 b1 b2 b3 k show ?thesis
    by (simp add: mockResponse_def mockError_def)
qed

subsection \<open>Authentication\<close>

lemma startsWith_append: "startsWith t p \<longleftrightarrow> (\<exists>rest. t = p @ rest)"
  unfolding startsWith_def by (metis append_eq_conv_conj append_take_drop_id)

text \<open>
  C4. For an endpoint that needs no authentication, the token provider is not called and
  the request goes to the wrapped contract as it is. For an endpoint that needs it, a
  token that is \<^verbatim>\<open>null\<close>, \<^verbatim>\<open>undefined\<close> or empty makes the decorator reject with the
  typed error \<^verbatim>\<open>UNAUTHORIZED\<close>, and the wrapped contract is not called. Otherwise the
  wrapped contract is called once with a request that differs from the given one in its
  headers only: the header of the configured name is the token itself when the token
  begins with \<^verbatim>\<open>Bearer \<close>, and \<^verbatim>\<open>Bearer \<close> followed by the token when it does not,
  whatever the caller had put under that name, and every other header is as the caller
  gave it. The header name defaults to \<^verbatim>\<open>Authorization\<close>.
\<close>

theorem AuthenticatedDecorator_request_header:
  "(\<not> needsAuth (endpoint req) \<longrightarrow>
      AuthenticatedDecorator_request tokenProvider needsAuth headerName wrapped req s
        = (fst (wrapped req s), snd (wrapped req s), [Wrapped req]))
   \<and> (needsAuth (endpoint req) \<and> tokenProvider s = (tok, s1)
       \<and> (tok = Null \<or> tok = Undefined \<or> tok = Data []) \<longrightarrow>
      AuthenticatedDecorator_request tokenProvider needsAuth headerName wrapped req s
        = (Inl (Typed unauthorized), s1, [TokenProvider])
      \<and> type unauthorized = UNAUTHORIZED)
   \<and> (needsAuth (endpoint req) \<and> tokenProvider s = (Data token, s1) \<and> token \<noteq> [] \<longrightarrow>
      (\<exists>sent. AuthenticatedDecorator_request tokenProvider needsAuth headerName wrapped req s
                 = (fst (wrapped sent s1), snd (wrapped sent s1), [TokenProvider, Wrapped sent])
         \<and> endpoint sent = endpoint req \<and> httpMethod sent = httpMethod req
         \<and> body sent = body req \<and> responseType sent = responseType req
         \<and> headers sent headerName
             = Some (if \<exists>rest. token = ''Bearer '' @ rest then token else ''Bearer '' @ token)
         \<and> (\<forall>name. name \<noteq> headerName \<longrightarrow> headers sent name = headers req name)))
   \<and> AuthenticatedDecorator_headerName None = ''Authorization''"
proof (intro conjI impI)
  assume a: "needsAuth (endpoint req) \<and> tokenProvider s = (Data token, s1) \<and> token \<noteq> []"
  let ?sent = "req\<lparr>headers := (headers req)(headerName \<mapsto>
                  (if startsWith token ''Bearer '' then token else ''Bearer '' @ token))\<rparr>"
  have "AuthenticatedDecorator_request tokenProvider needsAuth headerName wrapped req s
          = (fst (wrapped ?sent s1), snd (wrapped ?sent s1), [TokenProvider, Wrapped ?sent])"
    using a by (simp add: AuthenticatedDecorator_request_def Let_def split: prod.splits)
  moreover have "headers ?sent headerName
             = Some (if \<exists>rest. token = ''Bearer '' @ rest then token else ''Bearer '' @ token)"
    using startsWith_append [of token "''Bearer ''"] by simp
  ultimately show "\<exists>sent. AuthenticatedDecorator_request tokenProvider needsAuth headerName
                            wrapped req s
                 = (fst (wrapped sent s1), snd (wrapped sent s1), [TokenProvider, Wrapped sent])
         \<and> endpoint sent = endpoint req \<and> httpMethod sent = httpMethod req
         \<and> body sent = body req \<and> responseType sent = responseType req
         \<and> headers sent headerName
             = Some (if \<exists>rest. token = ''Bearer '' @ rest then token else ''Bearer '' @ token)
         \<and> (\<forall>name. name \<noteq> headerName \<longrightarrow> headers sent name = headers req name)"
    by (intro exI [of _ ?sent]) simp
qed (auto simp: AuthenticatedDecorator_request_def AuthenticatedDecorator_headerName_def
       unauthorized_def split: prod.splits)

theorem AuthenticatedDecorator_request_header_witness:
  "\<not> isPrivate (endpoint loginRequest)
   \<and> AuthenticatedDecorator_request (tokenOf (Data ''abc'')) isPrivate ''Authorization''
        (mockResponse ''ok'') loginRequest 0
      = (Inr ''ok'', 1, [Wrapped loginRequest])
   \<and> isPrivate (endpoint postRequest) \<and> tokenOf Null 0 = (Null, 0)
   \<and> AuthenticatedDecorator_request (tokenOf Null) isPrivate ''Authorization''
        (mockResponse ''ok'') postRequest 0
      = (Inl (Typed unauthorized), 0, [TokenProvider])
   \<and> tokenOf (Data ''abc'') 0 = (Data ''abc'', 0) \<and> ''abc'' \<noteq> []
   \<and> AuthenticatedDecorator_request (tokenOf (Data ''abc'')) isPrivate ''Authorization''
        (mockResponse ''ok'') postRequest 0
      = (Inr ''ok'', 1,
         [TokenProvider,
          Wrapped (postRequest\<lparr>headers :=
            [''Accept'' \<mapsto> ''application/json'', ''Authorization'' \<mapsto> ''Bearer abc'']\<rparr>)])
   \<and> AuthenticatedDecorator_request (tokenOf (Data ''Bearer abc'')) isPrivate ''Authorization''
        (mockResponse ''ok'') postRequest 0
      = (Inr ''ok'', 1,
         [TokenProvider,
          Wrapped (postRequest\<lparr>headers :=
            [''Accept'' \<mapsto> ''application/json'', ''Authorization'' \<mapsto> ''Bearer abc'']\<rparr>)])"
proof -
  let ?ok = "mockResponse ''ok'' :: (string, string, string, nat) NetworkRequestable"
  have a1: "\<not> isPrivate (endpoint loginRequest)"
    by (simp add: isPrivate_def loginRequest_def)
  have a2: "isPrivate (endpoint postRequest) \<and> tokenOf Null 0 = (Null, 0)
      \<and> (Null = (Null :: string jsvalue) \<or> Null = (Undefined :: string jsvalue)
          \<or> Null = Data ([] :: string))"
    by (simp add: isPrivate_def postRequest_def tokenOf_def)
  have a3: "isPrivate (endpoint postRequest) \<and> tokenOf (Data ''abc'') 0 = (Data ''abc'', 0)
      \<and> ''abc'' \<noteq> []"
    by (simp add: isPrivate_def postRequest_def tokenOf_def)
  note b1 = AuthenticatedDecorator_request_header [where needsAuth = isPrivate
      and req = loginRequest and tokenProvider = "tokenOf (Data ''abc'')"
      and headerName = "''Authorization''" and wrapped = ?ok and s = 0,
      THEN conjunct1, THEN mp, OF a1]
  note b2 = AuthenticatedDecorator_request_header [where needsAuth = isPrivate
      and req = postRequest and tokenProvider = "tokenOf Null"
      and headerName = "''Authorization''" and wrapped = ?ok and s = 0 and ?s1.0 = 0
      and tok = Null,
      THEN conjunct2, THEN conjunct1, THEN mp, OF a2]
  note b3 = AuthenticatedDecorator_request_header [where needsAuth = isPrivate
      and req = postRequest and tokenProvider = "tokenOf (Data ''abc'')"
      and headerName = "''Authorization''" and wrapped = ?ok and s = 0 and ?s1.0 = 0
      and token = "''abc''",
      THEN conjunct2, THEN conjunct2, THEN conjunct1, THEN mp, OF a3]
  have r3: "AuthenticatedDecorator_request (tokenOf (Data ''abc'')) isPrivate ''Authorization''
        ?ok postRequest 0
      = (Inr ''ok'', 1,
         [TokenProvider,
          Wrapped (postRequest\<lparr>headers :=
            [''Accept'' \<mapsto> ''application/json'', ''Authorization'' \<mapsto> ''Bearer abc'']\<rparr>)])"
    by (simp add: AuthenticatedDecorator_request_def isPrivate_def postRequest_def tokenOf_def
        mockResponse_def startsWith_def)
  have r4: "AuthenticatedDecorator_request (tokenOf (Data ''Bearer abc'')) isPrivate
        ''Authorization'' ?ok postRequest 0
      = (Inr ''ok'', 1,
         [TokenProvider,
          Wrapped (postRequest\<lparr>headers :=
            [''Accept'' \<mapsto> ''application/json'', ''Authorization'' \<mapsto> ''Bearer abc'']\<rparr>)])"
    by (simp add: AuthenticatedDecorator_request_def isPrivate_def postRequest_def tokenOf_def
        mockResponse_def startsWith_def)
  from a1 a2 a3 b1 b2 b3 r3 r4 show ?thesis
    by (simp add: mockResponse_def)
qed

end
